theory Spec2Isabelle
  imports Complex_Main "HOL-Library.Log_Nat"
begin

section \<open>QR token service (src/services/qrService.js)\<close>

text \<open>
  Timestamps are JavaScript numbers holding whole milliseconds since the epoch, as
  \<^verbatim>\<open>Date.now()\<close> returns them and \<^verbatim>\<open>generateStudentQRData\<close> embeds them; they are
  modelled as \<^typ>\<open>int\<close>, on which the double arithmetic of the source is exact.

  The field \<^verbatim>\<open>generatedAt\<close> of a parsed payload is whatever \<^verbatim>\<open>JSON.parse\<close> produced. The
  values are grouped by what the subtraction \<^verbatim>\<open>currentTime - parsedData.generatedAt\<close>
  makes of them (ECMAScript ToNumeric, through ToPrimitive for arrays and objects):
  \<^item> a missing field reads as \<^verbatim>\<open>undefined\<close>;
  \<^item> a string is a numeric literal with a whole value (the empty string is one, with
    value 0), or no numeric literal;
  \<^item> a plain object has the inherited \<^verbatim>\<open>valueOf\<close>, which returns the object itself, so
    the conversion goes on to \<^verbatim>\<open>toString\<close>: the inherited one gives
    \<^verbatim>\<open>"[object Object]"\<close>, no numeric literal, while an own property named
    \<^verbatim>\<open>toString\<close>, which in parsed JSON is never a function, leaves no method to call
    and the conversion throws a TypeError. \<open>JObject own\<close> is a plain object, \<open>own\<close>
    telling whether it has an own \<^verbatim>\<open>toString\<close> property;
  \<^item> an array is converted through \<^verbatim>\<open>join\<close>: the joined text is a numeric literal
    with a whole value (\<^verbatim>\<open>[]\<close> and \<^verbatim>\<open>[null]\<close> join to the empty string, \<^verbatim>\<open>[5]\<close> to
    \<^verbatim>\<open>"5"\<close>), or no numeric literal (\<^verbatim>\<open>[1,2]\<close>), or \<^verbatim>\<open>join\<close> throws a TypeError
    because the array holds, at some depth, an object with an own \<^verbatim>\<open>toString\<close>
    property.
  Numbers, and numeric literals in strings and arrays, that are not whole are left out.
\<close>

datatype jsval =
    JUndefined
  | JNull
  | JBool bool
  | JNum int
  | JNumericStr int
  | JOtherStr
  | JObject bool
  | JNumericArray int
  | JOtherArray
  | JThrowingArray

datatype jsnum = NaN | Fin int

datatype js_exception = TypeError

fun ToNumber :: "jsval \<Rightarrow> js_exception + jsnum" where
  "ToNumber JUndefined = Inr NaN"
| "ToNumber JNull = Inr (Fin 0)"
| "ToNumber (JBool b) = Inr (Fin (if b then 1 else 0))"
| "ToNumber (JNum n) = Inr (Fin n)"
| "ToNumber (JNumericStr n) = Inr (Fin n)"
| "ToNumber JOtherStr = Inr NaN"
| "ToNumber (JObject own_toString) = (if own_toString then Inl TypeError else Inr NaN)"
| "ToNumber (JNumericArray n) = Inr (Fin n)"
| "ToNumber JOtherArray = Inr NaN"
| "ToNumber JThrowingArray = Inl TypeError"

text \<open>\<^verbatim>\<open>a - b\<close> and \<^verbatim>\<open>a > b\<close> on numbers: NaN is absorbing for \<^verbatim>\<open>-\<close>, and every
  comparison with NaN is false.\<close>

fun js_minus :: "jsnum \<Rightarrow> jsnum \<Rightarrow> jsnum" where
  "js_minus (Fin a) (Fin b) = Fin (a - b)"
| "js_minus _ _ = NaN"

fun js_greater :: "jsnum \<Rightarrow> jsnum \<Rightarrow> bool" where
  "js_greater (Fin a) (Fin b) = (b < a)"
| "js_greater _ _ = False"

text \<open>The student id of a payload: \<^verbatim>\<open>null\<close> or missing (as issued at registration before
  the record exists), a value that is not an ObjectId string, or an id.\<close>

type_synonym oid = string

datatype qr_id = IdMissing | IdMalformed | IdOf oid

record qr_payload =
  p_type :: "string option"
  p_studentId :: qr_id
  generatedAt :: jsval

text \<open>The text of a scanned code, by what \<^verbatim>\<open>JSON.parse\<close> makes of it: missing or the
  empty string (falsy), text that does not parse to a value with properties, or an
  object.\<close>

datatype qr_input = QrAbsent | QrNotJson | QrJson qr_payload

text \<open>What the two service functions throw: the parse error, the expiry error, and a
  TypeError raised by the subtraction in \<^verbatim>\<open>validateQRCode\<close>. The scan handler catches all
  three in one \<^verbatim>\<open>try\<close> and answers 400 with the error's message.\<close>

datatype qr_error = InvalidQRCodeData | QRCodeExpired | ConversionTypeError

definition parseQRData :: "qr_input \<Rightarrow> qr_error + qr_payload" where
  "parseQRData qrData =
     (case qrData of
        QrJson parsedData \<Rightarrow>
          (if p_type parsedData \<noteq> Some ''student_attendance'' then Inl InvalidQRCodeData
           else Inr parsedData)
      | _ \<Rightarrow> Inl InvalidQRCodeData)"

definition maxAge :: int where
  "maxAge = 365 * 24 * 60 * 60 * 1000"

definition validateQRCode :: "int \<Rightarrow> qr_payload \<Rightarrow> qr_error + bool" where
  "validateQRCode currentTime parsedData =
     (case ToNumber (generatedAt parsedData) of
        Inl TypeError \<Rightarrow> Inl ConversionTypeError
      | Inr generated \<Rightarrow>
          (let qrAge = js_minus (Fin currentTime) generated
           in if js_greater qrAge (Fin maxAge) then Inl QRCodeExpired else Inr True))"

section \<open>Accounts (src/models/Student.js, Doctor.js, Admin.js)\<close>

text \<open>
  The schema paths the modelled handlers read. The three schemas share the account
  paths; none of them declares \<^verbatim>\<open>loginAttempts\<close>, \<^verbatim>\<open>lockUntil\<close> or \<^verbatim>\<open>lastLoginAt\<close>.
  The \<^verbatim>\<open>password\<close> path holds the bcrypt hash written by the pre-save hook.
\<close>

record account =
  acc_id :: oid
  email :: string
  password :: string
  isActive :: bool

record student = account +
  student_group :: oid

record doctor = account +
  assignedGroups :: "oid list"

record admin = account +
  admin_role :: string

text \<open>
  A Mongoose document in memory: the stored schema paths, and the plain properties the
  session code assigns on the object (\<^verbatim>\<open>user.loginAttempts = ...\<close>). Mongoose runs with
  its default \<^verbatim>\<open>strict\<close> option here (no schema sets it), under which a property that
  is not a schema path is never written by \<^verbatim>\<open>save()\<close> and is \<^verbatim>\<open>undefined\<close> on every
  document a query returns.
\<close>

record 'a document =
  paths :: 'a
  loginAttempts :: "nat option"
  lockUntil :: "int option"
  lastLoginAt :: "int option"

definition hydrate :: "'a \<Rightarrow> 'a document" where
  "hydrate a = \<lparr>paths = a, loginAttempts = None, lockUntil = None, lastLoginAt = None\<rparr>"

definition findById :: "'a account_scheme list \<Rightarrow> oid \<Rightarrow> 'a account_scheme document option" where
  "findById model i = map_option hydrate (find (\<lambda>a. acc_id a = i) model)"

definition findOne_email :: "'a account_scheme list \<Rightarrow> string \<Rightarrow> 'a account_scheme document option" where
  "findOne_email model e = map_option hydrate (find (\<lambda>a. email a = e) model)"

text \<open>\<^verbatim>\<open>user.save()\<close>: the schema paths of the document replace the stored ones of the
  same \<^verbatim>\<open>_id\<close>; nothing else of the object reaches the store.\<close>

definition save :: "'a account_scheme list \<Rightarrow> 'a account_scheme document \<Rightarrow> 'a account_scheme list" where
  "save model user = map (\<lambda>a. if acc_id a = acc_id (paths user) then paths user else a) model"

section \<open>Session and lockout (src/services/authService.js, src/routes/auth.js)\<close>

text \<open>JavaScript truthiness of the two properties: \<^verbatim>\<open>undefined\<close> and \<^verbatim>\<open>0\<close> are falsy.\<close>

definition falsy_nat :: "nat option \<Rightarrow> bool" where
  "falsy_nat v = (v = None \<or> v = Some 0)"

definition falsy_int :: "int option \<Rightarrow> bool" where
  "falsy_int v = (v = None \<or> v = Some 0)"

definition isAccountLocked :: "int \<Rightarrow> 'a document \<Rightarrow> bool" where
  "isAccountLocked now user =
     (if falsy_nat (loginAttempts user) \<or> falsy_int (lockUntil user) then False
      else 5 \<le> the (loginAttempts user) \<and> now < the (lockUntil user))"

text \<open>The two handlers load the document, change it in memory and save it. The change
  in memory is given a name of its own here.\<close>

definition handleFailedLogin_update :: "int \<Rightarrow> 'a document \<Rightarrow> 'a document" where
  "handleFailedLogin_update now user =
     (let attempts = (if falsy_nat (loginAttempts user) then 0 else the (loginAttempts user)) + 1;
          user1 = user\<lparr>loginAttempts := Some attempts\<rparr>
      in if 5 \<le> attempts then user1\<lparr>lockUntil := Some (now + 30 * 60 * 1000)\<rparr> else user1)"

definition handleFailedLogin :: "int \<Rightarrow> 'a account_scheme list \<Rightarrow> oid \<Rightarrow> 'a account_scheme list" where
  "handleFailedLogin now userModel userId =
     (case findById userModel userId of
        None \<Rightarrow> userModel
      | Some user \<Rightarrow> save userModel (handleFailedLogin_update now user))"

definition handleSuccessfulLogin_update :: "int \<Rightarrow> 'a document \<Rightarrow> 'a document" where
  "handleSuccessfulLogin_update now user =
     user\<lparr>loginAttempts := Some 0, lockUntil := None, lastLoginAt := Some now\<rparr>"

definition handleSuccessfulLogin :: "int \<Rightarrow> 'a account_scheme list \<Rightarrow> oid \<Rightarrow> 'a account_scheme list" where
  "handleSuccessfulLogin now userModel userId =
     (case findById userModel userId of
        None \<Rightarrow> userModel
      | Some user \<Rightarrow> save userModel (handleSuccessfulLogin_update now user))"

text \<open>The answers of \<^verbatim>\<open>POST /login\<close>: 401 for an unknown email or a wrong password, 423
  for a locked account, 401 for a deactivated one, and the authentication response with
  the account's id and role.\<close>

datatype login_response =
    InvalidCredentials
  | AccountLocked
  | AccountInactive
  | Authenticated oid string

fun login_status :: "login_response \<Rightarrow> nat" where
  "login_status InvalidCredentials = 401"
| "login_status AccountLocked = 423"
| "login_status AccountInactive = 401"
| "login_status (Authenticated _ _) = 200"

text \<open>
  The handler from the lock check on, for the document \<open>user\<close> found in collection
  \<open>userModel\<close>. \<open>bcrypt_compare candidate hash\<close> stands for \<^verbatim>\<open>bcrypt.compare\<close>.
\<close>

definition login_found ::
  "(string \<Rightarrow> string \<Rightarrow> bool) \<Rightarrow> int \<Rightarrow> 'a account_scheme list \<Rightarrow> 'a account_scheme document
     \<Rightarrow> string \<Rightarrow> string \<Rightarrow> login_response \<times> 'a account_scheme list" where
  "login_found bcrypt_compare now userModel user userRole pw =
     (if isAccountLocked now user then (AccountLocked, userModel)
      else if \<not> isActive (paths user) then (AccountInactive, userModel)
      else if \<not> bcrypt_compare pw (password (paths user))
      then (InvalidCredentials, handleFailedLogin now userModel (acc_id (paths user)))
      else (Authenticated (acc_id (paths user)) userRole,
            handleSuccessfulLogin now userModel (acc_id (paths user))))"

record auth_store =
  students :: "student list"
  doctors :: "doctor list"
  admins :: "admin list"

definition login ::
  "(string \<Rightarrow> string \<Rightarrow> bool) \<Rightarrow> int \<Rightarrow> 'a auth_store_scheme \<Rightarrow> string \<Rightarrow> string
     \<Rightarrow> login_response \<times> 'a auth_store_scheme" where
  "login bcrypt_compare now db em pw =
     (case findOne_email (students db) em of
        Some user \<Rightarrow>
          (case login_found bcrypt_compare now (students db) user ''student'' pw of
             (r, c) \<Rightarrow> (r, db\<lparr>students := c\<rparr>))
      | None \<Rightarrow>
          (case findOne_email (doctors db) em of
             Some user \<Rightarrow>
               (case login_found bcrypt_compare now (doctors db) user ''doctor'' pw of
                  (r, c) \<Rightarrow> (r, db\<lparr>doctors := c\<rparr>))
           | None \<Rightarrow>
               (case findOne_email (admins db) em of
                  Some user \<Rightarrow>
                    (case login_found bcrypt_compare now (admins db) user
                            (admin_role (paths user)) pw of
                       (r, c) \<Rightarrow> (r, db\<lparr>admins := c\<rparr>))
                | None \<Rightarrow> (InvalidCredentials, db))))"

text \<open>A sequence of login calls, each at its own clock reading, on the store the
  previous call left.\<close>

fun login_calls ::
  "(string \<Rightarrow> string \<Rightarrow> bool) \<Rightarrow> 'a auth_store_scheme \<Rightarrow> (int \<times> string \<times> string) list
     \<Rightarrow> login_response list \<times> 'a auth_store_scheme" where
  "login_calls bcrypt_compare db [] = ([], db)"
| "login_calls bcrypt_compare db ((now, em, pw) # rest) =
     (case login bcrypt_compare now db em pw of
        (r, db') \<Rightarrow> (case login_calls bcrypt_compare db' rest of (rs, db'') \<Rightarrow> (r # rs, db'')))"

section \<open>Attendance records (src/models/Attendance.js)\<close>

datatype att_status = Present | Absent | Late | Excused

datatype recorded_by = QrScan | Manual | AdminTag

text \<open>The paths of an attendance record that the recording rules read or write; the
  generated \<^verbatim>\<open>_id\<close>, the notes and the lecture details are carried through unread and
  are left out.\<close>

record attendance =
  att_student :: oid
  att_group :: oid
  att_doctor :: oid
  lectureDate :: int
  status :: att_status
  recordedBy :: recorded_by

record store = auth_store +
  groups :: "oid list"
  attendances :: "attendance list"

text \<open>
  The compound index \<^verbatim>\<open>{student: 1, group: 1, lectureDate: 1}\<close>, unique, with the partial
  filter \<^verbatim>\<open>{status: {$ne: 'absent'}}\<close>: an insert is refused (duplicate key) when the new
  record passes the filter and a stored record that passes it has the same three
  values. \<open>None\<close> is the thrown error.
\<close>

definition index_key :: "attendance \<Rightarrow> oid \<times> oid \<times> int" where
  "index_key a = (att_student a, att_group a, lectureDate a)"

definition in_partial_index :: "attendance \<Rightarrow> bool" where
  "in_partial_index a = (status a \<noteq> Absent)"

definition attendance_save :: "attendance list \<Rightarrow> attendance \<Rightarrow> attendance list option" where
  "attendance_save coll a =
     (if in_partial_index a \<and>
         list_ex (\<lambda>r. in_partial_index r \<and> index_key r = index_key a) coll
      then None else Some (coll @ [a]))"

section \<open>Day windows\<close>

text \<open>
  The handlers build the window of a day from an instant \<open>d\<close> as
  \<^verbatim>\<open>new Date(d.getFullYear(), d.getMonth(), d.getDate())\<close> and the same with
  \<^verbatim>\<open>23, 59, 59\<close>. The zone is at a fixed offset \<open>tz\<close> (milliseconds east of UTC); zones
  with daylight saving changes are not modelled, and instants and windows are taken to
  lie within the range of \<^verbatim>\<open>Date\<close>. Days are numbered from 1 January 1970, civil dates
  are those of the proleptic Gregorian calendar with the months numbered from 1.
\<close>

definition msPerDay :: int where
  "msPerDay = 24 * 60 * 60 * 1000"

text \<open>The local calendar day of an instant, as a day number.\<close>

definition calendarDay :: "int \<Rightarrow> int \<Rightarrow> int" where
  "calendarDay tz t = (t + tz) div msPerDay"

text \<open>The civil date (year, month, day of the month) of a day number, which the three
  getters read, and the day number of a civil date, which the constructor computes.\<close>

definition civil_from_days :: "int \<Rightarrow> int \<times> int \<times> int" where
  "civil_from_days z =
     (let z' = z + 719468;
          era = z' div 146097;
          doe = z' mod 146097;
          yoe = (doe - doe div 1460 + doe div 36524 - doe div 146096) div 365;
          doy = doe - (365 * yoe + yoe div 4 - yoe div 100);
          mp = (5 * doy + 2) div 153;
          d = doy - (153 * mp + 2) div 5 + 1;
          m = (if mp < 10 then mp + 3 else mp - 9)
      in (if m \<le> 2 then yoe + era * 400 + 1 else yoe + era * 400, m, d))"

definition days_from_civil :: "int \<Rightarrow> int \<Rightarrow> int \<Rightarrow> int" where
  "days_from_civil y m d =
     (let y' = (if m \<le> 2 then y - 1 else y);
          era = y' div 400;
          yoe = y' mod 400;
          mp = (m + 9) mod 12;
          doy = (153 * mp + 2) div 5 + d - 1;
          doe = yoe * 365 + yoe div 4 - yoe div 100 + doy
      in era * 146097 + doe - 719468)"

text \<open>
  \<^verbatim>\<open>new Date(y, m, d)\<close>: a year from 0 to 99 stands for 1900 plus that year; the day is
  counted on from the first of the month, so that a day the target month does not have
  (29 February of the year 0, taken to 1900) runs over into the next month. The
  result is local midnight. \<^verbatim>\<open>new Date(y, m, d, 23, 59, 59)\<close> adds 23 hours, 59 minutes
  and 59 seconds and leaves the milliseconds at zero.
\<close>

definition startOfDay :: "int \<Rightarrow> int \<Rightarrow> int" where
  "startOfDay tz t =
     (case civil_from_days (calendarDay tz t) of
        (y, m, d) \<Rightarrow>
          (days_from_civil (if 0 \<le> y \<and> y \<le> 99 then 1900 + y else y) m 1 + (d - 1)) * msPerDay
            - tz)"

definition endOfDay :: "int \<Rightarrow> int \<Rightarrow> int" where
  "endOfDay tz t = startOfDay tz t + (23 * 60 * 60 + 59 * 60 + 59) * 1000"

text \<open>\<^verbatim>\<open>Attendance.findOne({student, group, lectureDate: {$gte, $lte}})\<close>.\<close>

definition findOne_attendance :: "attendance list \<Rightarrow> oid \<Rightarrow> oid \<Rightarrow> int \<Rightarrow> int \<Rightarrow> attendance option" where
  "findOne_attendance coll s g lo hi =
     find (\<lambda>r. att_student r = s \<and> att_group r = g \<and> lo \<le> lectureDate r \<and> lectureDate r \<le> hi) coll"

section \<open>Attendance recorder (src/controllers/attendanceController.js)\<close>

text \<open>The caller as the authentication middleware leaves it in \<^verbatim>\<open>req.user\<close>; the routes
  admit the roles doctor, admin and super_admin.\<close>

datatype caller_role = RoleDoctor | RoleAdmin | RoleSuperAdmin

record caller =
  user_id :: oid
  user_role :: caller_role

text \<open>The failures of the handlers, with the HTTP status each is answered with. A
  thrown error (a failed cast, a property of \<^verbatim>\<open>null\<close>, a duplicate key) reaches the
  handler's \<^verbatim>\<open>catch\<close> and is answered 500.\<close>

datatype att_error =
    MissingFields
  | QrRejected qr_error
  | StudentNotFound
  | InactiveAccount
  | NotInGroup
  | NotAssigned
  | DuplicateForDay
  | ServerError

fun http_status :: "att_error \<Rightarrow> nat" where
  "http_status MissingFields = 400"
| "http_status (QrRejected _) = 400"
| "http_status StudentNotFound = 404"
| "http_status InactiveAccount = 400"
| "http_status NotInGroup = 400"
| "http_status NotAssigned = 403"
| "http_status DuplicateForDay = 409"
| "http_status ServerError = 500"

text \<open>\<^verbatim>\<open>doctor.assignedGroups.includes(groupId)\<close> after \<^verbatim>\<open>Doctor.findById(req.user.id)\<close>:
  \<open>None\<close> when no doctor has the caller's id (reading \<^verbatim>\<open>assignedGroups\<close> of \<^verbatim>\<open>null\<close>
  throws).\<close>

definition assigned_to :: "doctor list \<Rightarrow> oid \<Rightarrow> string \<Rightarrow> bool option" where
  "assigned_to model uid groupId =
     map_option (\<lambda>d. groupId \<in> set (assignedGroups (paths d))) (findById model uid)"

text \<open>The scan handler reads the clock for the day window and again for the new record's
  \<^verbatim>\<open>lectureDate\<close>; both readings are the one instant \<open>now\<close>.\<close>

record scan_request =
  qrData :: qr_input
  scan_groupId :: string
  scan_user :: caller

definition scanQRCode :: "int \<Rightarrow> int \<Rightarrow> store \<Rightarrow> scan_request \<Rightarrow> (att_error + attendance) \<times> store" where
  "scanQRCode tz now db req =
     (if qrData req = QrAbsent \<or> scan_groupId req = [] then (Inl MissingFields, db)
      else case parseQRData (qrData req) of
        Inl e \<Rightarrow> (Inl (QrRejected e), db)
      | Inr parsedQRData \<Rightarrow>
      (case validateQRCode now parsedQRData of
        Inl e \<Rightarrow> (Inl (QrRejected e), db)
      | Inr _ \<Rightarrow>
      (case p_studentId parsedQRData of
        IdMalformed \<Rightarrow> (Inl ServerError, db)
      | IdMissing \<Rightarrow> (Inl StudentNotFound, db)
      | IdOf sid \<Rightarrow>
      (case findById (students db) sid of
        None \<Rightarrow> (Inl StudentNotFound, db)
      | Some student \<Rightarrow>
          if \<not> isActive (paths student) then (Inl InactiveAccount, db)
          else if student_group (paths student) \<notin> set (groups db) then (Inl ServerError, db)
          else if student_group (paths student) \<noteq> scan_groupId req then (Inl NotInGroup, db)
          else if user_role (scan_user req) = RoleDoctor \<and>
                  assigned_to (doctors db) (user_id (scan_user req)) (scan_groupId req) = None
          then (Inl ServerError, db)
          else if user_role (scan_user req) = RoleDoctor \<and>
                  assigned_to (doctors db) (user_id (scan_user req)) (scan_groupId req) = Some False
          then (Inl NotAssigned, db)
          else
            (case findOne_attendance (attendances db) (acc_id (paths student)) (scan_groupId req)
                    (startOfDay tz now) (endOfDay tz now) of
               Some existingAttendance \<Rightarrow> (Inl DuplicateForDay, db)
             | None \<Rightarrow>
                 (let attendance = \<lparr>att_student = acc_id (paths student),
                        att_group = scan_groupId req, att_doctor = user_id (scan_user req),
                        lectureDate = now, status = Present, recordedBy = QrScan\<rparr>
                  in case attendance_save (attendances db) attendance of
                       None \<Rightarrow> (Inl ServerError, db)
                     | Some coll \<Rightarrow> (Inr attendance, db\<lparr>attendances := coll\<rparr>)))))))"

text \<open>A body that passed \<^verbatim>\<open>recordAttendanceValidation\<close> (the handler answers 400 to any
  other): both ids are ObjectId strings, the status is one of the four, and the date is
  an ISO 8601 instant, held as its timestamp.\<close>

record record_request =
  rec_studentId :: oid
  rec_groupId :: string
  rec_status :: att_status
  rec_lectureDate :: int
  rec_user :: caller

definition recordAttendance :: "int \<Rightarrow> store \<Rightarrow> record_request \<Rightarrow> (att_error + attendance) \<times> store" where
  "recordAttendance tz db req =
     (case findById (students db) (rec_studentId req) of
        None \<Rightarrow> (Inl StudentNotFound, db)
      | Some student \<Rightarrow>
          if student_group (paths student) \<noteq> rec_groupId req then (Inl NotInGroup, db)
          else if user_role (rec_user req) = RoleDoctor \<and>
                  assigned_to (doctors db) (user_id (rec_user req)) (rec_groupId req) = None
          then (Inl ServerError, db)
          else if user_role (rec_user req) = RoleDoctor \<and>
                  assigned_to (doctors db) (user_id (rec_user req)) (rec_groupId req) = Some False
          then (Inl NotAssigned, db)
          else
            (case findOne_attendance (attendances db) (rec_studentId req) (rec_groupId req)
                    (startOfDay tz (rec_lectureDate req)) (endOfDay tz (rec_lectureDate req)) of
               Some existingAttendance \<Rightarrow> (Inl DuplicateForDay, db)
             | None \<Rightarrow>
                 (let attendance = \<lparr>att_student = rec_studentId req,
                        att_group = rec_groupId req, att_doctor = user_id (rec_user req),
                        lectureDate = rec_lectureDate req, status = rec_status req,
                        recordedBy = Manual\<rparr>
                  in case attendance_save (attendances db) attendance of
                       None \<Rightarrow> (Inl ServerError, db)
                     | Some coll \<Rightarrow> (Inr attendance, db\<lparr>attendances := coll\<rparr>))))"

text \<open>
  The bulk handler. The list is what \<^verbatim>\<open>req.body.attendanceList\<close> holds when it is an
  array (\<open>None\<close> otherwise); the handler never reads the validation result, and the
  items modelled are those with an ObjectId string and one of the four statuses. Each
  iteration has its own \<^verbatim>\<open>try\<close>: a duplicate found by the query and an error thrown by
  \<^verbatim>\<open>save()\<close> both add to \<^verbatim>\<open>errors\<close>, and the loop goes on.
\<close>

record bulk_item =
  item_studentId :: oid
  item_status :: att_status

record bulk_request =
  bulk_groupId :: string
  bulk_lectureDate :: int
  attendanceList :: "bulk_item list option"
  bulk_user :: caller

datatype item_error = AlreadyRecorded | SaveThrew

record bulk_data =
  successful :: "oid list"
  errors :: "(oid \<times> item_error) list"

fun bulk_loop ::
  "int \<Rightarrow> string \<Rightarrow> int \<Rightarrow> oid \<Rightarrow> bulk_item list
     \<Rightarrow> attendance list \<times> oid list \<times> (oid \<times> item_error) list
     \<Rightarrow> attendance list \<times> oid list \<times> (oid \<times> item_error) list" where
  "bulk_loop tz groupId lectureDateTime uid [] acc = acc"
| "bulk_loop tz groupId lectureDateTime uid (item # rest) (coll, results, errs) =
     (case findOne_attendance coll (item_studentId item) groupId
             (startOfDay tz lectureDateTime) (endOfDay tz lectureDateTime) of
        Some existingAttendance \<Rightarrow>
          bulk_loop tz groupId lectureDateTime uid rest
            (coll, results, errs @ [(item_studentId item, AlreadyRecorded)])
      | None \<Rightarrow>
          (case attendance_save coll
                  \<lparr>att_student = item_studentId item, att_group = groupId, att_doctor = uid,
                   lectureDate = lectureDateTime, status = item_status item,
                   recordedBy = Manual\<rparr> of
             None \<Rightarrow>
               bulk_loop tz groupId lectureDateTime uid rest
                 (coll, results, errs @ [(item_studentId item, SaveThrew)])
           | Some coll' \<Rightarrow>
               bulk_loop tz groupId lectureDateTime uid rest
                 (coll', results @ [item_studentId item], errs)))"

definition bulkRecordAttendance :: "int \<Rightarrow> store \<Rightarrow> bulk_request \<Rightarrow> (att_error + bulk_data) \<times> store" where
  "bulkRecordAttendance tz db req =
     (case attendanceList req of
        None \<Rightarrow> (Inl MissingFields, db)
      | Some items \<Rightarrow>
          if bulk_groupId req = [] then (Inl MissingFields, db)
          else if user_role (bulk_user req) = RoleDoctor \<and>
                  assigned_to (doctors db) (user_id (bulk_user req)) (bulk_groupId req) = None
          then (Inl ServerError, db)
          else if user_role (bulk_user req) = RoleDoctor \<and>
                  assigned_to (doctors db) (user_id (bulk_user req)) (bulk_groupId req) = Some False
          then (Inl NotAssigned, db)
          else
            (case bulk_loop tz (bulk_groupId req) (bulk_lectureDate req) (user_id (bulk_user req))
                    items (attendances db, [], []) of
               (coll, results, errs) \<Rightarrow>
                 (Inr \<lparr>successful = results, errors = errs\<rparr>, db\<lparr>attendances := coll\<rparr>)))"

section \<open>Double arithmetic\<close>

text \<open>
  The percentages are computed on JavaScript numbers, IEEE 754 doubles. A double is
  modelled by the rational number it denotes. Every arithmetic operation returns the
  double nearest to the exact result, the one with the even significand at a tie:
  \<open>fl\<close> rounds a rational to 53 significant bits. Subnormal numbers, overflow and the
  sign of zero are left out; the quantities rounded here are quotients and products of
  record counts, far inside the normal range.
\<close>

definition round_half_even :: "rat \<Rightarrow> int" where
  "round_half_even x =
     (let f = \<lfloor>x\<rfloor>; r = x - of_int f
      in if r < 1 / 2 then f else if 1 / 2 < r then f + 1 else if even f then f else f + 1)"

text \<open>The exponent \<open>e\<close> with \<open>2 ^ e \<le> \<bar>x\<bar> < 2 ^ (e + 1)\<close>, for \<open>x \<noteq> 0\<close>.\<close>

definition binade :: "rat \<Rightarrow> int" where
  "binade x =
     (if 1 \<le> \<bar>x\<bar> then bitlen \<lfloor>\<bar>x\<bar>\<rfloor> - 1 else - bitlen (\<lceil>1 / \<bar>x\<bar>\<rceil> - 1))"

definition fl :: "rat \<Rightarrow> rat" where
  "fl x =
     (if x = 0 then 0
      else (let ulp = 2 powi (binade x - 52) in of_int (round_half_even (x / ulp)) * ulp))"

text \<open>Half the distance, relative to the number, between neighbouring doubles.\<close>

definition unit_roundoff :: rat where
  "unit_roundoff = 1 / 2 ^ 53"

definition js_divide :: "rat \<Rightarrow> rat \<Rightarrow> rat" where
  "js_divide a b = fl (a / b)"

definition js_times :: "rat \<Rightarrow> rat \<Rightarrow> rat" where
  "js_times a b = fl (a * b)"

text \<open>\<^verbatim>\<open>Math.round\<close> returns the integer nearest to its argument, the larger one at a tie;
  it is exact.\<close>

definition Math_round :: "rat \<Rightarrow> int" where
  "Math_round x = \<lfloor>x + 1 / 2\<rfloor>"

text \<open>
  \<^verbatim>\<open>x.toFixed(1)\<close> for \<open>x \<ge> 0\<close>: the integer \<open>n\<close> for which \<open>n / 10\<close> is nearest to the
  exact value of \<open>x\<close>, the larger one at a tie, written in decimal with a point before
  its last digit.
\<close>

fun decimal :: "nat \<Rightarrow> string" where
  "decimal n = (if n < 10 then [''0123456789'' ! n] else decimal (n div 10) @ [''0123456789'' ! (n mod 10)])"

declare decimal.simps [simp del]

definition toFixed1 :: "rat \<Rightarrow> string" where
  "toFixed1 x = (let n = nat \<lfloor>x * 10 + 1 / 2\<rfloor> in decimal (n div 10) @ ''.'' @ decimal (n mod 10))"

section \<open>Reporting (attendanceController.js, reportsController.js)\<close>

text \<open>
  The source does not fix the version of Mongoose. Two behaviours of the library that
  the reporting handlers meet differ between its major versions and are parameters:
  \<^item> \<open>strictPopulate\<close>: from Mongoose 6 on, populating a path that the schema does not
    declare throws when the query has found documents;
  \<^item> \<open>objectIdIsClass\<close>: from Mongoose 7 on, \<^verbatim>\<open>mongoose.Types.ObjectId\<close> is a class, and
    calling it without \<^verbatim>\<open>new\<close> throws.
\<close>

record mongoose =
  strictPopulate :: bool
  objectIdIsClass :: bool

text \<open>
  A value in a query. A query given to \<^verbatim>\<open>find\<close> or \<^verbatim>\<open>countDocuments\<close> is cast by the
  schema, so an id string there stands for the ObjectId; a pipeline given to
  \<^verbatim>\<open>aggregate\<close> is sent as it is, and in it a string is a string. The stored \<^verbatim>\<open>student\<close>
  and \<^verbatim>\<open>group\<close> of a record are ObjectIds, and an ObjectId equals no string.
\<close>

datatype bson = ObjectIdValue oid | StringValue string

datatype group_condition = AnyGroup | GroupIs bson | GroupIn "bson list"

record match_query =
  match_group :: group_condition
  match_student :: "bson option"
  match_gte :: "int option"
  match_lte :: "int option"

definition matches :: "match_query \<Rightarrow> attendance \<Rightarrow> bool" where
  "matches q r =
     ((case match_group q of
         AnyGroup \<Rightarrow> True
       | GroupIs v \<Rightarrow> ObjectIdValue (att_group r) = v
       | GroupIn vs \<Rightarrow> ObjectIdValue (att_group r) \<in> set vs)
      \<and> (case match_student q of None \<Rightarrow> True | Some v \<Rightarrow> ObjectIdValue (att_student r) = v)
      \<and> (case match_gte q of None \<Rightarrow> True | Some t \<Rightarrow> t \<le> lectureDate r)
      \<and> (case match_lte q of None \<Rightarrow> True | Some t \<Rightarrow> lectureDate r \<le> t))"

definition aggregate_match :: "match_query \<Rightarrow> attendance list \<Rightarrow> attendance list" where
  "aggregate_match q coll = filter (matches q) coll"

definition countDocuments :: "attendance list \<Rightarrow> att_status \<Rightarrow> nat" where
  "countDocuments recs s = length (filter (\<lambda>r. status r = s) recs)"

text \<open>The statistics object of a response.\<close>

record statistics =
  total_records :: nat
  present :: nat
  absent :: nat
  late :: nat
  excused :: nat
  attendancePercentage :: rat

text \<open>
  \<^verbatim>\<open>AttendanceController.getAttendanceStats\<close>, from the matched records on: the
  aggregation into one group yields nothing for an empty match, and the handler then
  takes the all-zero default; the percentage is
  \<^verbatim>\<open>Math.round((present / total) * 100 * 100) / 100\<close>, or 0.
\<close>

definition stats_result :: "attendance list \<Rightarrow> statistics" where
  "stats_result recs =
     (let result =
            (if recs = [] then \<lparr>total_records = 0, present = 0, absent = 0, late = 0, excused = 0,
                                 attendancePercentage = 0\<rparr>
             else \<lparr>total_records = length recs, present = countDocuments recs Present,
                   absent = countDocuments recs Absent, late = countDocuments recs Late,
                   excused = countDocuments recs Excused, attendancePercentage = 0\<rparr>)
      in result\<lparr>attendancePercentage :=
           (if total_records result > 0
            then js_divide
                   (of_int (Math_round
                      (js_times
                         (js_times (js_divide (of_nat (present result)) (of_nat (total_records result))) 100)
                         100)))
                   100
            else 0)\<rparr>)"

text \<open>
  The request of the statistics endpoint: the caller, whose role is any the token
  carries, and the query parameters, each missing (or empty) or given; ids given are
  ObjectId strings and dates given are valid, held as timestamps.
\<close>

record reader =
  reader_id :: oid
  reader_role :: string

record stats_request =
  stats_groupId :: "oid option"
  stats_studentId :: "oid option"
  stats_startDate :: "int option"
  stats_endDate :: "int option"
  stats_user :: reader

text \<open>
  The handler builds the match with \<^verbatim>\<open>mongoose.Types.ObjectId(...)\<close>, called without
  \<^verbatim>\<open>new\<close>, for a group or student parameter, for each assigned group of a doctor and for
  the id of a student caller; a doctor's assigned groups and a student's own id
  replace the respective parameter. A doctor caller with no doctor document makes the
  handler read a property of \<^verbatim>\<open>null\<close>. Every thrown error is answered 500.
\<close>

definition getAttendanceStats :: "mongoose \<Rightarrow> store \<Rightarrow> stats_request \<Rightarrow> att_error + statistics" where
  "getAttendanceStats mg db req =
     (if objectIdIsClass mg \<and> (stats_groupId req \<noteq> None \<or> stats_studentId req \<noteq> None)
      then Inl ServerError
      else
        (let matchQuery =
               \<lparr>match_group = (case stats_groupId req of None \<Rightarrow> AnyGroup
                                 | Some g \<Rightarrow> GroupIs (ObjectIdValue g)),
                match_student = map_option ObjectIdValue (stats_studentId req),
                match_gte = stats_startDate req, match_lte = stats_endDate req\<rparr>
         in if reader_role (stats_user req) = ''doctor'' then
              (case findById (doctors db) (reader_id (stats_user req)) of
                 None \<Rightarrow> Inl ServerError
               | Some doctor \<Rightarrow>
                   if objectIdIsClass mg \<and> assignedGroups (paths doctor) \<noteq> [] then Inl ServerError
                   else Inr (stats_result (aggregate_match
                          (matchQuery\<lparr>match_group :=
                             GroupIn (map ObjectIdValue (assignedGroups (paths doctor)))\<rparr>)
                          (attendances db))))
            else if reader_role (stats_user req) = ''student'' then
              (if objectIdIsClass mg then Inl ServerError
               else Inr (stats_result (aggregate_match
                      (matchQuery\<lparr>match_student :=
                         Some (ObjectIdValue (reader_id (stats_user req)))\<rparr>)
                      (attendances db))))
            else Inr (stats_result (aggregate_match matchQuery (attendances db)))))"

text \<open>
  \<^verbatim>\<open>ReportsController.getStudentAttendanceReport\<close>. The handler puts the \<^verbatim>\<open>studentId\<close>
  parameter, a string, into one query object and uses it both for \<^verbatim>\<open>find\<close> and as the
  \<^verbatim>\<open>$match\<close> stage of the aggregation by status that the statistics are computed from.
  \<open>group_by_status\<close> is that aggregation: one entry for each status that occurs.
\<close>

definition group_by_status :: "attendance list \<Rightarrow> (att_status \<times> nat) list" where
  "group_by_status recs =
     filter (\<lambda>(s, c). c > 0) (map (\<lambda>s. (s, countDocuments recs s)) [Present, Absent, Late, Excused])"

definition count_or_zero :: "(att_status \<times> nat) list \<Rightarrow> att_status \<Rightarrow> nat" where
  "count_or_zero stats s = (case map_of stats s of None \<Rightarrow> 0 | Some c \<Rightarrow> c)"

record report_request =
  report_studentId :: "oid option"
  report_startDate :: "int option"
  report_endDate :: "int option"

definition getStudentAttendanceReport :: "store \<Rightarrow> report_request \<Rightarrow> att_error + statistics" where
  "getStudentAttendanceReport db req =
     (case report_studentId req of
        None \<Rightarrow> Inl MissingFields
      | Some studentId \<Rightarrow>
          (let query = \<lparr>match_group = AnyGroup, match_student = Some (StringValue studentId),
                        match_gte = report_startDate req, match_lte = report_endDate req\<rparr>;
               stats = group_by_status (aggregate_match query (attendances db))
           in case findById (students db) studentId of
                None \<Rightarrow> Inl StudentNotFound
              | Some student \<Rightarrow>
                  (let totalLectures = sum_list (map snd stats);
                       presentCount = count_or_zero stats Present;
                       attendancePercentage =
                         (if totalLectures > 0
                          then js_times (js_divide (of_nat presentCount) (of_nat totalLectures)) 100
                          else 0)
                   in Inr \<lparr>total_records = totalLectures, present = presentCount,
                           absent = count_or_zero stats Absent, late = count_or_zero stats Late,
                           excused = count_or_zero stats Excused,
                           attendancePercentage =
                             js_divide (of_int (Math_round (js_times attendancePercentage 100))) 100\<rparr>)))"

text \<open>
  \<^verbatim>\<open>StudentController.getStudentProfile\<close>. The handler loads the student, then the
  student's recent records with \<^verbatim>\<open>.populate('session', ...)\<close>, a path the attendance
  schema does not declare, then counts the student's records and the present ones
  (\<^verbatim>\<open>countDocuments\<close> casts the id). It answers the number \<^verbatim>\<open>0\<close> for no records and
  otherwise the string \<^verbatim>\<open>(attended / total * 100).toFixed(1)\<close>.
\<close>

datatype json_value = JsonNumber rat | JsonString string

record profile_statistics =
  totalSessions :: nat
  attendedSessions :: nat
  profilePercentage :: json_value

definition getStudentProfile :: "mongoose \<Rightarrow> store \<Rightarrow> oid \<Rightarrow> att_error + profile_statistics" where
  "getStudentProfile mg db studentId =
     (case findById (students db) studentId of
        None \<Rightarrow> Inl StudentNotFound
      | Some student \<Rightarrow>
          (let recs = filter (\<lambda>r. att_student r = studentId) (attendances db)
           in if strictPopulate mg \<and> recs \<noteq> [] then Inl ServerError
              else
                (let totalSessions = length recs;
                     attendedSessions = countDocuments recs Present
                 in Inr \<lparr>totalSessions = totalSessions, attendedSessions = attendedSessions,
                         profilePercentage =
                           (if totalSessions > 0
                            then JsonString (toFixed1
                                   (js_times (js_divide (of_nat attendedSessions) (of_nat totalSessions)) 100))
                            else JsonNumber 0)\<rparr>)))"

section \<open>Sequences of recording operations and the per-day invariant\<close>

datatype operation = Scan int scan_request | Record record_request | Bulk bulk_request

fun apply_operation :: "int \<Rightarrow> store \<Rightarrow> operation \<Rightarrow> store" where
  "apply_operation tz db (Scan now req) = snd (scanQRCode tz now db req)"
| "apply_operation tz db (Record req) = snd (recordAttendance tz db req)"
| "apply_operation tz db (Bulk req) = snd (bulkRecordAttendance tz db req)"

definition run :: "int \<Rightarrow> store \<Rightarrow> operation list \<Rightarrow> store" where
  "run tz db ops = foldl (apply_operation tz) db ops"

definition day_key :: "int \<Rightarrow> attendance \<Rightarrow> oid \<times> oid \<times> int" where
  "day_key tz r = (att_student r, att_group r, calendarDay tz (lectureDate r))"

text \<open>At most one record that is not absent for each student, group and calendar day.\<close>

definition one_non_absent_per_day :: "int \<Rightarrow> attendance list \<Rightarrow> bool" where
  "one_non_absent_per_day tz coll = distinct (map (day_key tz) (filter in_partial_index coll))"

text \<open>What the partial unique index keeps: no two records that are not absent share
  student, group and the exact \<^verbatim>\<open>lectureDate\<close>.\<close>

definition index_unique :: "attendance list \<Rightarrow> bool" where
  "index_unique coll = distinct (map index_key (filter in_partial_index coll))"

section \<open>Example data\<close>

text \<open>A small store: two groups; student 1 (active) and student 2 (deactivated) in group
  1, student 3 in group 2; doctor 1 assigned to group 1 only, doctor 2 to group 2 only;
  one admin; no attendance yet. Passwords are stored as \<open>example_hash\<close> of the plain
  text, which \<open>example_compare\<close> checks.\<close>

definition student1_id :: oid where "student1_id = ''65e1a0000000000000000001''"
definition student2_id :: oid where "student2_id = ''65e1a0000000000000000002''"
definition student3_id :: oid where "student3_id = ''65e1a0000000000000000003''"
definition unknown_id :: oid where "unknown_id = ''65e1a00000000000000000ff''"
definition group1_id :: oid where "group1_id = ''65e1b0000000000000000001''"
definition group2_id :: oid where "group2_id = ''65e1b0000000000000000002''"
definition doctor1_id :: oid where "doctor1_id = ''65e1c0000000000000000001''"
definition doctor2_id :: oid where "doctor2_id = ''65e1c0000000000000000002''"
definition admin1_id :: oid where "admin1_id = ''65e1d0000000000000000001''"

definition example_hash :: "string \<Rightarrow> string" where
  "example_hash pw = ''$2a$10$'' @ pw"

definition example_compare :: "string \<Rightarrow> string \<Rightarrow> bool" where
  "example_compare candidate hash = (hash = example_hash candidate)"

definition example_store :: store where
  "example_store =
     \<lparr>students =
        [\<lparr>acc_id = student1_id, email = ''s1@uni.edu'', password = example_hash ''Right1'',
          isActive = True, student_group = group1_id\<rparr>,
         \<lparr>acc_id = student2_id, email = ''s2@uni.edu'', password = example_hash ''Right2'',
          isActive = False, student_group = group1_id\<rparr>,
         \<lparr>acc_id = student3_id, email = ''s3@uni.edu'', password = example_hash ''Right3'',
          isActive = True, student_group = group2_id\<rparr>],
      doctors =
        [\<lparr>acc_id = doctor1_id, email = ''d1@uni.edu'', password = example_hash ''Right4'',
          isActive = True, assignedGroups = [group1_id]\<rparr>,
         \<lparr>acc_id = doctor2_id, email = ''d2@uni.edu'', password = example_hash ''Right5'',
          isActive = True, assignedGroups = [group2_id]\<rparr>],
      admins =
        [\<lparr>acc_id = admin1_id, email = ''a1@uni.edu'', password = example_hash ''Right6'',
          isActive = True, admin_role = ''admin''\<rparr>],
      groups = [group1_id, group2_id],
      attendances = []\<rparr>"

definition doctor1 :: caller where
  "doctor1 = \<lparr>user_id = doctor1_id, user_role = RoleDoctor\<rparr>"

definition doctor2 :: caller where
  "doctor2 = \<lparr>user_id = doctor2_id, user_role = RoleDoctor\<rparr>"

definition admin1 :: caller where
  "admin1 = \<lparr>user_id = admin1_id, user_role = RoleAdmin\<rparr>"

text \<open>The payload \<^verbatim>\<open>generateStudentQRData\<close> issues for a student at instant \<open>t\<close>.\<close>

definition issued_qr :: "oid \<Rightarrow> int \<Rightarrow> qr_payload" where
  "issued_qr sid t =
     \<lparr>p_type = Some ''student_attendance'', p_studentId = IdOf sid, generatedAt = JNum t\<rparr>"

text \<open>Instants of 1 March 2024 in a zone at offset 0: midnight is day 19783 of the epoch;
  10:00:00.000, 23:59:59.500 and 23:59:59.700.\<close>

definition march1_midnight :: int where "march1_midnight = 1709251200000"
definition march1_morning :: int where "march1_morning = 1709287200000"
definition march1_last_second_a :: int where "march1_last_second_a = 1709337599500"
definition march1_last_second_b :: int where "march1_last_second_b = 1709337599700"

definition manual_record :: "oid \<Rightarrow> oid \<Rightarrow> oid \<Rightarrow> int \<Rightarrow> att_status \<Rightarrow> attendance" where
  "manual_record s g d t st =
     \<lparr>att_student = s, att_group = g, att_doctor = d, lectureDate = t, status = st,
      recordedBy = Manual\<rparr>"

definition scan_record :: "oid \<Rightarrow> oid \<Rightarrow> oid \<Rightarrow> int \<Rightarrow> attendance" where
  "scan_record s g d t =
     \<lparr>att_student = s, att_group = g, att_doctor = d, lectureDate = t, status = Present,
      recordedBy = QrScan\<rparr>"

text \<open>Three records of student 1, on three days of March 2024: present, absent, late.\<close>

definition one_present_of_three :: "attendance list" where
  "one_present_of_three =
     [manual_record student1_id group1_id doctor1_id 1709287200000 Present,
      manual_record student1_id group1_id doctor1_id 1709373600000 Absent,
      manual_record student1_id group1_id doctor1_id 1709460000000 Late]"

text \<open>The three library behaviours: Mongoose 5, Mongoose 6, Mongoose 7 and later.\<close>

definition mongoose5 :: mongoose where
  "mongoose5 = \<lparr>strictPopulate = False, objectIdIsClass = False\<rparr>"

definition mongoose6 :: mongoose where
  "mongoose6 = \<lparr>strictPopulate = True, objectIdIsClass = False\<rparr>"

definition mongoose7 :: mongoose where
  "mongoose7 = \<lparr>strictPopulate = True, objectIdIsClass = True\<rparr>"

text \<open>An admin reading the statistics with no filter.\<close>

definition admin_reads_all :: stats_request where
  "admin_reads_all =
     \<lparr>stats_groupId = None, stats_studentId = None, stats_startDate = None,
      stats_endDate = None, stats_user = \<lparr>reader_id = admin1_id, reader_role = ''admin''\<rparr>\<rparr>"

text \<open>A store with 160 records of student 1, one a day from 1 March 2024, of which the
  first 23 are present and the others absent.\<close>

definition present_23_of_160 :: "attendance list" where
  "present_23_of_160 =
     map (\<lambda>i. manual_record student1_id group1_id doctor1_id (march1_morning + int i * msPerDay)
                 (if i < 23 then Present else Absent))
       [0..<160]"

definition store_one_of_three :: store where
  "store_one_of_three = example_store\<lparr>attendances := one_present_of_three\<rparr>"

definition store_23_of_160 :: store where
  "store_23_of_160 = example_store\<lparr>attendances := present_23_of_160\<rparr>"

section \<open>Evaluation rules for the examples\<close>

lemmas example_ids =
  student1_id_def student2_id_def student3_id_def unknown_id_def group1_id_def group2_id_def
  doctor1_id_def doctor2_id_def admin1_id_def

lemmas example_data =
  example_store_def doctor1_def doctor2_def admin1_def issued_qr_def example_hash_def
  example_compare_def march1_midnight_def march1_morning_def march1_last_second_a_def
  march1_last_second_b_def manual_record_def scan_record_def

text \<open>The windows of the instants of 1 March 2024 used below: each starts at that day's
  midnight and ends at 23:59:59.000.\<close>

lemma day_windows:
  "startOfDay 0 1709287200000 = 1709251200000"
  "endOfDay 0 1709287200000 = 1709337599000"
  "startOfDay 0 1709337599500 = 1709251200000"
  "endOfDay 0 1709337599500 = 1709337599000"
  "startOfDay 0 1709337599700 = 1709251200000"
  "endOfDay 0 1709337599700 = 1709337599000"
  by code_simp+

lemmas recorder_defs =
  scanQRCode_def recordAttendance_def bulkRecordAttendance_def parseQRData_def
  validateQRCode_def maxAge_def findById_def hydrate_def assigned_to_def
  findOne_attendance_def day_windows msPerDay_def calendarDay_def
  attendance_save_def in_partial_index_def index_key_def day_key_def Let_def

lemmas session_defs =
  login_def login_found_def findOne_email_def findById_def hydrate_def isAccountLocked_def
  falsy_nat_def falsy_int_def handleFailedLogin_def handleSuccessfulLogin_def
  handleFailedLogin_update_def handleSuccessfulLogin_update_def save_def Let_def

section \<open>QR freshness\<close>

text \<open>
  C7. For a parsed payload whose \<^verbatim>\<open>generatedAt\<close> is a number, validation fails, with the
  expiry error, exactly when \<^verbatim>\<open>now - generatedAt\<close> exceeds 365 * 24 * 60 * 60 * 1000
  milliseconds, and passes otherwise; a payload one second younger than the threshold
  passes.
\<close>

theorem validateQRCode_numeric_threshold:
  assumes "generatedAt p = JNum g"
  shows "(validateQRCode now p = Inl QRCodeExpired \<longleftrightarrow> now - g > 365 * 24 * 60 * 60 * 1000)
       \<and> (validateQRCode now p = Inr True \<longleftrightarrow> now - g \<le> 365 * 24 * 60 * 60 * 1000)
       \<and> (now - g = 365 * 24 * 60 * 60 * 1000 - 1000 \<longrightarrow> validateQRCode now p = Inr True)"
  using assms by (simp add: validateQRCode_def maxAge_def Let_def)

theorem validateQRCode_numeric_threshold_witness:
  "validateQRCode (1709251200000 + 31536000000 - 1000) (issued_qr student1_id 1709251200000) = Inr True
   \<and> validateQRCode (1709251200000 + 31536000000) (issued_qr student1_id 1709251200000) = Inr True
   \<and> validateQRCode (1709251200000 + 31536000001) (issued_qr student1_id 1709251200000)
       = Inl QRCodeExpired"
  using validateQRCode_numeric_threshold [of "issued_qr student1_id 1709251200000" 1709251200000
      "1709251200000 + 31536000000 - 1000"]
    validateQRCode_numeric_threshold [of "issued_qr student1_id 1709251200000" 1709251200000
      "1709251200000 + 31536000000"]
    validateQRCode_numeric_threshold [of "issued_qr student1_id 1709251200000" 1709251200000
      "1709251200000 + 31536000001"]
  by (simp add: issued_qr_def)




section \<open>Session and lockout\<close>

lemma findOne_email_unset:
  "findOne_email model e = Some user \<Longrightarrow> loginAttempts user = None \<and> lockUntil user = None"
  by (auto simp: findOne_email_def hydrate_def)

lemma unset_not_locked: "loginAttempts user = None \<Longrightarrow> \<not> isAccountLocked now user"
  by (simp add: isAccountLocked_def falsy_nat_def)

text \<open>No call of the login handler answers 423: the document it checks comes from a
  query, and a queried document has no \<^verbatim>\<open>loginAttempts\<close>.\<close>

lemma login_never_reports_locked: "fst (login cmp now db em pw) \<noteq> AccountLocked"
  unfolding login_def
  by (auto split: option.splits prod.splits if_splits simp: login_found_def
        dest!: findOne_email_unset [THEN conjunct1, THEN unset_not_locked [where now = now]])

text \<open>
  The service functions by themselves: on one document object that is kept between the
  calls, starting with no recorded attempt, five failed attempts set the counter to 5
  and \<^verbatim>\<open>lockUntil\<close> to 30 minutes after the fifth; the lock check then holds until that
  instant and no longer from it on; a successful login resets both.
\<close>

lemma lockout_on_kept_document:
  assumes fresh: "falsy_nat (loginAttempts u)"
      and u5: "u5 = handleFailedLogin_update t5 (handleFailedLogin_update t4
                 (handleFailedLogin_update t3 (handleFailedLogin_update t2
                   (handleFailedLogin_update t1 u))))"
      and epoch: "0 \<le> t5"
  shows "loginAttempts u5 = Some 5"
    and "lockUntil u5 = Some (t5 + 30 * 60 * 1000)"
    and "now < t5 + 30 * 60 * 1000 \<Longrightarrow> isAccountLocked now u5"
    and "t5 + 30 * 60 * 1000 \<le> now \<Longrightarrow> \<not> isAccountLocked now u5"
    and "loginAttempts (handleSuccessfulLogin_update now u5) = Some 0"
    and "lockUntil (handleSuccessfulLogin_update now u5) = None"
proof -
  have a: "loginAttempts u5 = Some 5" "lockUntil u5 = Some (t5 + 30 * 60 * 1000)"
    using fresh unfolding u5
    by (auto simp: handleFailedLogin_update_def falsy_nat_def Let_def)
  show "loginAttempts u5 = Some 5" "lockUntil u5 = Some (t5 + 30 * 60 * 1000)"
    by (rule a)+
  show "now < t5 + 30 * 60 * 1000 \<Longrightarrow> isAccountLocked now u5"
    using a epoch by (simp add: isAccountLocked_def falsy_nat_def falsy_int_def)
  show "t5 + 30 * 60 * 1000 \<le> now \<Longrightarrow> \<not> isAccountLocked now u5"
    using a by (simp add: isAccountLocked_def falsy_nat_def falsy_int_def)
  show "loginAttempts (handleSuccessfulLogin_update now u5) = Some 0"
    "lockUntil (handleSuccessfulLogin_update now u5) = None"
    by (simp_all add: handleSuccessfulLogin_update_def)
qed

text \<open>
  C9. On every document, with the clock at or after the epoch, the lock check holds
  exactly when \<^verbatim>\<open>loginAttempts\<close> is at least 5 and \<^verbatim>\<open>lockUntil\<close> is later than now, and
  the login handler answers that the account is locked exactly then; a document with
  fewer than 5 attempts, or with \<^verbatim>\<open>lockUntil\<close> missing or not after now, is not locked.
\<close>

theorem isAccountLocked_iff:
  assumes "0 \<le> now"
  shows "(isAccountLocked now user
            \<longleftrightarrow> (\<exists>n t. loginAttempts user = Some n \<and> 5 \<le> n \<and> lockUntil user = Some t \<and> now < t))
       \<and> (fst (login_found cmp now model user r pw) = AccountLocked
            \<longleftrightarrow> (\<exists>n t. loginAttempts user = Some n \<and> 5 \<le> n \<and> lockUntil user = Some t \<and> now < t))"
  using assms
  by (cases "loginAttempts user"; cases "lockUntil user")
     (auto simp: isAccountLocked_def falsy_nat_def falsy_int_def login_found_def)

theorem isAccountLocked_iff_witness:
  "isAccountLocked 1709251200000
     \<lparr>paths = hd (students example_store), loginAttempts = Some 5,
      lockUntil = Some 1709251260000, lastLoginAt = None\<rparr>
   \<and> \<not> isAccountLocked 1709251200000
     \<lparr>paths = hd (students example_store), loginAttempts = Some 4,
      lockUntil = Some 1709251260000, lastLoginAt = None\<rparr>
   \<and> \<not> isAccountLocked 1709251200000
     \<lparr>paths = hd (students example_store), loginAttempts = Some 5,
      lockUntil = Some 1709251200000, lastLoginAt = None\<rparr>"
proof -
  have locked: "isAccountLocked 1709251200000
     \<lparr>paths = hd (students example_store), loginAttempts = Some 5,
      lockUntil = Some 1709251260000, lastLoginAt = None\<rparr>"
    using isAccountLocked_iff [THEN conjunct1, of 1709251200000
      "\<lparr>paths = hd (students example_store), loginAttempts = Some 5,
        lockUntil = Some 1709251260000, lastLoginAt = None\<rparr>"]
    by simp
  have few: "\<not> isAccountLocked 1709251200000
     \<lparr>paths = hd (students example_store), loginAttempts = Some 4,
      lockUntil = Some 1709251260000, lastLoginAt = None\<rparr>"
    using isAccountLocked_iff [THEN conjunct1, of 1709251200000
      "\<lparr>paths = hd (students example_store), loginAttempts = Some 4,
        lockUntil = Some 1709251260000, lastLoginAt = None\<rparr>"]
    by simp
  have expired: "\<not> isAccountLocked 1709251200000
     \<lparr>paths = hd (students example_store), loginAttempts = Some 5,
      lockUntil = Some 1709251200000, lastLoginAt = None\<rparr>"
    using isAccountLocked_iff [THEN conjunct1, of 1709251200000
      "\<lparr>paths = hd (students example_store), loginAttempts = Some 5,
        lockUntil = Some 1709251200000, lastLoginAt = None\<rparr>"]
    by simp
  from locked few expired show ?thesis by blast
qed

text \<open>
  C1, on the code. Student 1 gives a wrong password five times, one second apart, and
  the right password a minute after the fifth failure. Each of the five calls is
  answered 401 and leaves the store as it was; the sixth call authenticates, although
  it falls within 30 minutes of the fifth failure.
\<close>

theorem five_failures_do_not_lock:
  "login_calls example_compare example_store
     [(1709251200000, ''s1@uni.edu'', ''Wrong1''),
      (1709251201000, ''s1@uni.edu'', ''Wrong1''),
      (1709251202000, ''s1@uni.edu'', ''Wrong1''),
      (1709251203000, ''s1@uni.edu'', ''Wrong1''),
      (1709251204000, ''s1@uni.edu'', ''Wrong1''),
      (1709251264000, ''s1@uni.edu'', ''Right1'')]
   = ([InvalidCredentials, InvalidCredentials, InvalidCredentials, InvalidCredentials,
       InvalidCredentials, Authenticated student1_id ''student''],
      example_store)"
  by (simp add: session_defs example_data example_ids)

section \<open>Attendance recorder\<close>

text \<open>
  C6. A caller with role doctor whose assigned groups do not contain the target group,
  asking for a student who exists, is active and belongs to that group (for a scan,
  through a code that parses and is fresh), is answered NotAssigned, HTTP 403, by the
  scan handler and by the manual handler, and the store is unchanged.
\<close>

theorem unassigned_doctor_rejected:
  assumes student: "findById (students db) sid = Some student"
      and active: "isActive (paths student)"
      and member: "student_group (paths student) = g"
      and group: "g \<in> set (groups db)" "g \<noteq> []"
      and role: "user_role u = RoleDoctor"
      and doctor: "findById (doctors db) (user_id u) = Some d"
      and unassigned: "g \<notin> set (assignedGroups (paths d))"
      and qr: "parseQRData q = Inr p" "validateQRCode now p = Inr True" "p_studentId p = IdOf sid"
  shows "scanQRCode tz now db \<lparr>qrData = q, scan_groupId = g, scan_user = u\<rparr> = (Inl NotAssigned, db)
       \<and> recordAttendance tz db
            \<lparr>rec_studentId = sid, rec_groupId = g, rec_status = st, rec_lectureDate = t, rec_user = u\<rparr>
          = (Inl NotAssigned, db)
       \<and> http_status NotAssigned = 403"
proof -
  have a: "assigned_to (doctors db) (user_id u) g = Some False"
    using doctor unassigned by (simp add: assigned_to_def)
  have q: "q \<noteq> QrAbsent"
    using qr(1) by (auto simp: parseQRData_def)
  have scan: "scanQRCode tz now db \<lparr>qrData = q, scan_groupId = g, scan_user = u\<rparr> = (Inl NotAssigned, db)"
    using student active member group role a q qr by (simp add: scanQRCode_def)
  have manual: "recordAttendance tz db
            \<lparr>rec_studentId = sid, rec_groupId = g, rec_status = st, rec_lectureDate = t, rec_user = u\<rparr>
          = (Inl NotAssigned, db)"
    using student member role a by (simp add: recordAttendance_def)
  show ?thesis using scan manual by simp
qed

theorem unassigned_doctor_rejected_witness:
  "scanQRCode 0 march1_morning example_store
     \<lparr>qrData = QrJson (issued_qr student1_id march1_midnight), scan_groupId = group1_id,
      scan_user = doctor2\<rparr> = (Inl NotAssigned, example_store)
   \<and> recordAttendance 0 example_store
     \<lparr>rec_studentId = student1_id, rec_groupId = group1_id, rec_status = Present,
      rec_lectureDate = march1_morning, rec_user = doctor2\<rparr> = (Inl NotAssigned, example_store)"
proof -
  have student: "findById (students example_store) student1_id = Some (hydrate (hd (students example_store)))"
    by (simp add: findById_def example_data example_ids)
  have doctor: "findById (doctors example_store) (user_id doctor2)
                  = Some (hydrate (hd (tl (doctors example_store))))"
    by (simp add: findById_def example_data example_ids)
  have "scanQRCode 0 march1_morning example_store
     \<lparr>qrData = QrJson (issued_qr student1_id march1_midnight), scan_groupId = group1_id,
      scan_user = doctor2\<rparr> = (Inl NotAssigned, example_store)
   \<and> recordAttendance 0 example_store
     \<lparr>rec_studentId = student1_id, rec_groupId = group1_id, rec_status = Present,
      rec_lectureDate = march1_morning, rec_user = doctor2\<rparr> = (Inl NotAssigned, example_store)
   \<and> http_status NotAssigned = 403"
  proof (rule unassigned_doctor_rejected [OF student _ _ _ _ _ doctor])
    show "isActive (paths (hydrate (hd (students example_store))))"
      by (simp add: hydrate_def example_data)
    show "student_group (paths (hydrate (hd (students example_store)))) = group1_id"
      by (simp add: hydrate_def example_data)
    show "group1_id \<in> set (groups example_store)"
      by (simp add: example_data)
    show "group1_id \<noteq> []"
      by (simp add: example_ids)
    show "user_role doctor2 = RoleDoctor"
      by (simp add: example_data)
    show "group1_id \<notin> set (assignedGroups (paths (hydrate (hd (tl (doctors example_store))))))"
      by (simp add: hydrate_def example_data example_ids)
    show "parseQRData (QrJson (issued_qr student1_id march1_midnight))
            = Inr (issued_qr student1_id march1_midnight)"
      by (simp add: parseQRData_def example_data)
    show "validateQRCode march1_morning (issued_qr student1_id march1_midnight) = Inr True"
      by (simp add: validateQRCode_def maxAge_def example_data)
    show "p_studentId (issued_qr student1_id march1_midnight) = IdOf student1_id"
      by (simp add: example_data)
  qed
  then show ?thesis by blast
qed

text \<open>
  C2, on the code. Doctor 1 records student 1 of group 1 as present with a lecture date
  of 23:59:59.500 on 1 March 2024, then once more with a lecture date of 10:00:00 on the
  same day. The window of the second call ends at 23:59:59.000, the query misses the
  first record, and the second call creates a second record for the same student, group
  and day.
\<close>

theorem second_record_same_day_created:
  "recordAttendance 0
     (snd (recordAttendance 0 example_store
        \<lparr>rec_studentId = student1_id, rec_groupId = group1_id, rec_status = Present,
         rec_lectureDate = march1_last_second_a, rec_user = doctor1\<rparr>))
     \<lparr>rec_studentId = student1_id, rec_groupId = group1_id, rec_status = Present,
      rec_lectureDate = march1_morning, rec_user = doctor1\<rparr>
   = (Inr (manual_record student1_id group1_id doctor1_id march1_morning Present),
      example_store\<lparr>attendances :=
        [manual_record student1_id group1_id doctor1_id march1_last_second_a Present,
         manual_record student1_id group1_id doctor1_id march1_morning Present]\<rparr>)
   \<and> calendarDay 0 march1_last_second_a = 19783
   \<and> calendarDay 0 march1_morning = 19783"
  by (simp add: recorder_defs example_data example_ids)

text \<open>
  C3, on the code. Doctor 1 scans the code of student 1 at 23:59:59.500 on 1 March 2024
  and again at 23:59:59.700. Both scans store a present record: the reached store holds
  two records that are not absent for one student, group and calendar day, while the
  partial unique index, keyed by the exact lecture date, is satisfied.
\<close>

theorem reachable_store_breaks_day_invariant:
  "attendances (run 0 example_store
          [Scan march1_last_second_a
             \<lparr>qrData = QrJson (issued_qr student1_id march1_midnight),
              scan_groupId = group1_id, scan_user = doctor1\<rparr>,
           Scan march1_last_second_b
             \<lparr>qrData = QrJson (issued_qr student1_id march1_midnight),
              scan_groupId = group1_id, scan_user = doctor1\<rparr>])
     = [scan_record student1_id group1_id doctor1_id march1_last_second_a,
        scan_record student1_id group1_id doctor1_id march1_last_second_b]
   \<and> calendarDay 0 march1_last_second_a = calendarDay 0 march1_last_second_b
   \<and> \<not> one_non_absent_per_day 0
       (attendances (run 0 example_store
          [Scan march1_last_second_a
             \<lparr>qrData = QrJson (issued_qr student1_id march1_midnight),
              scan_groupId = group1_id, scan_user = doctor1\<rparr>,
           Scan march1_last_second_b
             \<lparr>qrData = QrJson (issued_qr student1_id march1_midnight),
              scan_groupId = group1_id, scan_user = doctor1\<rparr>]))
   \<and> index_unique
       (attendances (run 0 example_store
          [Scan march1_last_second_a
             \<lparr>qrData = QrJson (issued_qr student1_id march1_midnight),
              scan_groupId = group1_id, scan_user = doctor1\<rparr>,
           Scan march1_last_second_b
             \<lparr>qrData = QrJson (issued_qr student1_id march1_midnight),
              scan_groupId = group1_id, scan_user = doctor1\<rparr>]))"
  by (simp add: run_def one_non_absent_per_day_def index_unique_def recorder_defs example_data
        example_ids)

text \<open>
  C4, on the code. Doctor 1 sends a bulk list for group 1 with student 3, who belongs to
  group 2, and with an id no student has. Both entries are stored as successes; the
  manual handler refuses the same entries with NotInGroup and with StudentNotFound.
\<close>

theorem bulk_skips_student_checks:
  "bulkRecordAttendance 0 example_store
     \<lparr>bulk_groupId = group1_id, bulk_lectureDate = march1_morning,
      attendanceList = Some [\<lparr>item_studentId = student3_id, item_status = Present\<rparr>,
                             \<lparr>item_studentId = unknown_id, item_status = Late\<rparr>],
      bulk_user = doctor1\<rparr>
   = (Inr \<lparr>successful = [student3_id, unknown_id], errors = []\<rparr>,
      example_store\<lparr>attendances :=
        [manual_record student3_id group1_id doctor1_id march1_morning Present,
         manual_record unknown_id group1_id doctor1_id march1_morning Late]\<rparr>)
   \<and> recordAttendance 0 example_store
        \<lparr>rec_studentId = student3_id, rec_groupId = group1_id, rec_status = Present,
         rec_lectureDate = march1_morning, rec_user = doctor1\<rparr> = (Inl NotInGroup, example_store)
   \<and> recordAttendance 0 example_store
        \<lparr>rec_studentId = unknown_id, rec_groupId = group1_id, rec_status = Late,
         rec_lectureDate = march1_morning, rec_user = doctor1\<rparr>
       = (Inl StudentNotFound, example_store)"
  by (simp add: recorder_defs example_data example_ids)

text \<open>
  C5, on the code. Student 2 is deactivated. The manual handler, called by doctor 1 for
  student 2 in group 1, creates the record; the scan handler, for the same student,
  group and caller, answers InactiveAccount and stores nothing.
\<close>

theorem manual_record_ignores_inactive:
  "recordAttendance 0 example_store
     \<lparr>rec_studentId = student2_id, rec_groupId = group1_id, rec_status = Present,
      rec_lectureDate = march1_morning, rec_user = doctor1\<rparr>
   = (Inr (manual_record student2_id group1_id doctor1_id march1_morning Present),
      example_store\<lparr>attendances :=
        [manual_record student2_id group1_id doctor1_id march1_morning Present]\<rparr>)
   \<and> scanQRCode 0 march1_morning example_store
        \<lparr>qrData = QrJson (issued_qr student2_id march1_midnight), scan_groupId = group1_id,
         scan_user = doctor1\<rparr> = (Inl InactiveAccount, example_store)"
  by (simp add: recorder_defs example_data example_ids)

section \<open>What the recorder does keep\<close>

text \<open>The partial unique index holds in every store the recording operations reach
  from a store in which it holds.\<close>

lemma attendance_save_index_unique:
  assumes "index_unique coll" and "attendance_save coll a = Some coll'"
  shows "index_unique coll'"
proof -
  from assms(2) have coll': "coll' = coll @ [a]"
    and free: "\<not> (in_partial_index a \<and> list_ex (\<lambda>r. in_partial_index r \<and> index_key r = index_key a) coll)"
    by (auto simp: attendance_save_def split: if_splits)
  show ?thesis
  proof (cases "in_partial_index a")
    case False
    with assms(1) coll' show ?thesis by (simp add: index_unique_def)
  next
    case True
    with free have "index_key a \<notin> set (map index_key (filter in_partial_index coll))"
      by (auto simp: list_ex_iff)
    with assms(1) coll' True show ?thesis by (simp add: index_unique_def)
  qed
qed

lemma scanQRCode_index_unique:
  "index_unique (attendances db) \<Longrightarrow> index_unique (attendances (snd (scanQRCode tz now db req)))"
  by (auto simp: scanQRCode_def Let_def dest: attendance_save_index_unique
        split: sum.splits qr_id.splits option.splits)

lemma recordAttendance_index_unique:
  "index_unique (attendances db) \<Longrightarrow> index_unique (attendances (snd (recordAttendance tz db req)))"
  by (auto simp: recordAttendance_def Let_def dest: attendance_save_index_unique
        split: option.splits)

lemma bulk_loop_index_unique:
  "index_unique coll \<Longrightarrow> index_unique (fst (bulk_loop tz g t uid items (coll, rs, es)))"
proof (induction items arbitrary: coll rs es)
  case Nil
  then show ?case by simp
next
  case (Cons item items)
  then show ?case
    by (auto split: option.splits dest: attendance_save_index_unique)
qed

lemma bulkRecordAttendance_index_unique:
  assumes "index_unique (attendances db)"
  shows "index_unique (attendances (snd (bulkRecordAttendance tz db req)))"
proof (cases "attendanceList req")
  case None
  with assms show ?thesis by (simp add: bulkRecordAttendance_def)
next
  case (Some items)
  obtain coll rs es where loop:
    "bulk_loop tz (bulk_groupId req) (bulk_lectureDate req) (user_id (bulk_user req)) items
       (attendances db, [], []) = (coll, rs, es)"
    by (cases "bulk_loop tz (bulk_groupId req) (bulk_lectureDate req) (user_id (bulk_user req))
                 items (attendances db, [], [])") auto
  from bulk_loop_index_unique [OF assms, of tz "bulk_groupId req" "bulk_lectureDate req"
      "user_id (bulk_user req)" items "[]" "[]"] loop
  have "index_unique coll" by simp
  with assms Some loop show ?thesis by (simp add: bulkRecordAttendance_def)
qed

lemma apply_operation_index_unique:
  "index_unique (attendances db) \<Longrightarrow> index_unique (attendances (apply_operation tz db op))"
  by (cases op)
     (simp_all add: scanQRCode_index_unique recordAttendance_index_unique
        bulkRecordAttendance_index_unique)

lemma run_index_unique:
  "index_unique (attendances db) \<Longrightarrow> index_unique (attendances (run tz db ops))"
  unfolding run_def
  by (induction ops arbitrary: db) (simp_all add: apply_operation_index_unique)

text \<open>Every entry of a bulk list gets one outcome, whatever happened to the entries before
  it, and the records stored so far stay stored.\<close>

lemma bulk_loop_outcomes:
  assumes "bulk_loop tz g t uid items (coll, rs, es) = (coll', rs', es')"
  shows "length rs' + length es' = length rs + length es + length items
       \<and> length coll' + length rs = length coll + length rs'
       \<and> take (length coll) coll' = coll"
  using assms
proof (induction items arbitrary: coll rs es)
  case Nil
  then show ?case by simp
next
  case (Cons item items)
  show ?case
  proof (cases "findOne_attendance coll (item_studentId item) g (startOfDay tz t) (endOfDay tz t)")
    case (Some existing)
    with Cons.prems have
      "bulk_loop tz g t uid items (coll, rs, es @ [(item_studentId item, AlreadyRecorded)])
         = (coll', rs', es')" by simp
    from Cons.IH [OF this] show ?thesis by simp
  next
    case None
    show ?thesis
    proof (cases "attendance_save coll
                  \<lparr>att_student = item_studentId item, att_group = g, att_doctor = uid,
                   lectureDate = t, status = item_status item, recordedBy = Manual\<rparr>")
      case no: None
      with None Cons.prems have
        "bulk_loop tz g t uid items (coll, rs, es @ [(item_studentId item, SaveThrew)])
           = (coll', rs', es')" by simp
      from Cons.IH [OF this] show ?thesis by simp
    next
      case (Some coll1)
      then have c1: "coll1 = coll @ [\<lparr>att_student = item_studentId item, att_group = g,
                   att_doctor = uid, lectureDate = t, status = item_status item,
                   recordedBy = Manual\<rparr>]"
        by (auto simp: attendance_save_def split: if_splits)
      from None Some Cons.prems have
        "bulk_loop tz g t uid items (coll1, rs @ [item_studentId item], es) = (coll', rs', es')"
        by simp
      from Cons.IH [OF this] have ih:
        "length rs' + length es' = length (rs @ [item_studentId item]) + length es + length items"
        "length coll' + length (rs @ [item_studentId item]) = length coll1 + length rs'"
        "take (length coll1) coll' = coll1"
        by simp_all
      have "take (length coll) coll' = take (length coll) (take (length coll1) coll')"
        using c1 by (simp add: min_def)
      also have "\<dots> = coll" using ih(3) c1 by simp
      finally show ?thesis using ih c1 by simp
    qed
  qed
qed

text \<open>A record whose lecture date lies in the window of its day, from local midnight to
  23:59:59.000, is found by the query of any later call for the same student, group and
  day: for the manual handler, such a call is answered DuplicateForDay, HTTP 409, and
  stores nothing.\<close>

lemma startOfDay_same_day:
  "calendarDay tz t = calendarDay tz t' \<Longrightarrow> startOfDay tz t = startOfDay tz t'"
  by (simp add: startOfDay_def)

lemma recordAttendance_duplicate_in_window:
  assumes stored: "r \<in> set (attendances db)" "att_student r = rec_studentId req"
        "att_group r = rec_groupId req"
      and day: "calendarDay tz (lectureDate r) = calendarDay tz (rec_lectureDate req)"
      and window: "startOfDay tz (lectureDate r) \<le> lectureDate r"
        "lectureDate r \<le> endOfDay tz (lectureDate r)"
      and student: "findById (students db) (rec_studentId req) = Some student"
        "student_group (paths student) = rec_groupId req"
      and caller: "user_role (rec_user req) = RoleDoctor \<longrightarrow>
        assigned_to (doctors db) (user_id (rec_user req)) (rec_groupId req) = Some True"
  shows "recordAttendance tz db req = (Inl DuplicateForDay, db)
       \<and> http_status DuplicateForDay = 409"
proof -
  have same: "startOfDay tz (lectureDate r) = startOfDay tz (rec_lectureDate req)"
    using day by (rule startOfDay_same_day)
  have lo: "startOfDay tz (rec_lectureDate req) \<le> lectureDate r"
    using window(1) same by simp
  have hi: "lectureDate r \<le> endOfDay tz (rec_lectureDate req)"
    using window(2) same by (simp add: endOfDay_def)
  have "findOne_attendance (attendances db) (rec_studentId req) (rec_groupId req)
          (startOfDay tz (rec_lectureDate req)) (endOfDay tz (rec_lectureDate req)) \<noteq> None"
    unfolding findOne_attendance_def find_None_iff
    using stored lo hi by blast
  then obtain e where "findOne_attendance (attendances db) (rec_studentId req) (rec_groupId req)
          (startOfDay tz (rec_lectureDate req)) (endOfDay tz (rec_lectureDate req)) = Some e"
    by blast
  with student caller show ?thesis
    by (auto simp: recordAttendance_def)
qed

text \<open>The window of an instant of 1 March 2024 starts at that day's midnight. The window
  of noon on 15 June of the year 50 is that of 15 June 1950: a lecture date in the
  years 0 to 99 lies outside the window computed from it.\<close>

lemma startOfDay_examples:
  "startOfDay 0 march1_last_second_a = march1_midnight"
  "endOfDay 0 march1_last_second_a = march1_midnight + 86399000"
  "civil_from_days (calendarDay 0 (- 60574996800000)) = (50, 6, 15)"
  "startOfDay 0 (- 60574996800000) = - 616896000000"
  "civil_from_days (calendarDay 0 (- 616896000000)) = (1950, 6, 15)"
  by code_simp+

section \<open>Double arithmetic: rounding error\<close>

lemma round_half_even_close: "\<bar>of_int (round_half_even y) - y\<bar> \<le> 1 / 2"
proof -
  have "of_int \<lfloor>y\<rfloor> \<le> y" "y < of_int \<lfloor>y\<rfloor> + 1"
    by linarith+
  then show ?thesis
    unfolding round_half_even_def Let_def by (simp; linarith)
qed

lemma round_half_even_unique:
  assumes "\<bar>of_int m - y\<bar> < 1 / 2"
  shows "round_half_even y = m"
proof -
  have "\<bar>of_int (round_half_even y) - y\<bar> \<le> 1 / 2" by (rule round_half_even_close)
  with assms have "\<bar>(of_int (round_half_even y) :: rat) - of_int m\<bar> < 1" by linarith
  then have "\<bar>(of_int (round_half_even y - m) :: rat)\<bar> < 1" by simp
  then have "\<bar>round_half_even y - m\<bar> < 1"
    by (metis of_int_abs of_int_less_1_iff)
  then show ?thesis by linarith
qed

lemma less_reciprocal:
  fixes a P Q :: rat
  assumes "a * P < 1" and "0 < Q" and "P * Q = 1"
  shows "a < Q"
proof -
  have "a * P * Q < 1 * Q" using assms(1,2) by (rule mult_strict_right_mono)
  moreover have "a * P * Q = a" using assms(3) by (simp add: mult.assoc)
  ultimately show ?thesis by simp
qed

lemma binade_bounds:
  assumes "x \<noteq> 0"
  shows "2 powi binade x \<le> \<bar>x\<bar>" and "\<bar>x\<bar> < 2 powi (binade x + 1)"
proof -
  define a where "a = \<bar>x\<bar>"
  have a: "0 < a" using assms by (simp add: a_def)
  show "2 powi binade x \<le> \<bar>x\<bar>" and "\<bar>x\<bar> < 2 powi (binade x + 1)"
  proof (atomize(full), cases "1 \<le> a")
    case True
    define n where "n = \<lfloor>a\<rfloor>"
    have n: "0 < n" "of_int n \<le> a" "a < of_int n + 1"
      using True unfolding n_def by linarith+
    have b: "binade x = bitlen n - 1"
      using True by (simp add: binade_def a_def n_def)
    from bitlen_bounds [OF n(1)] have lo: "2 ^ nat (bitlen n - 1) \<le> n" and hi: "n < 2 ^ nat (bitlen n)"
      by auto
    have ge1: "1 \<le> bitlen n" using n(1) by (auto simp: bitlen_alt_def)
    have "(2::rat) powi (bitlen n - 1) = 2 ^ nat (bitlen n - 1)"
      using ge1 by (simp add: power_int_nonneg_exp)
    also have "\<dots> = of_int (2 ^ nat (bitlen n - 1))" by simp
    also have "\<dots> \<le> of_int n" using lo by (simp only: of_int_le_iff)
    finally have l: "(2::rat) powi (bitlen n - 1) \<le> a" using n(2) by linarith
    have "n + 1 \<le> 2 ^ nat (bitlen n)" using hi by simp
    then have "(of_int (n + 1) :: rat) \<le> of_int (2 ^ nat (bitlen n))" by (simp only: of_int_le_iff)
    also have "\<dots> = 2 powi (bitlen n)" using ge1 by (simp add: power_int_nonneg_exp)
    finally have "a < 2 powi (bitlen n)" using n(3) by simp
    with l b show "2 powi binade x \<le> \<bar>x\<bar> \<and> \<bar>x\<bar> < 2 powi (binade x + 1)"
      by (simp add: a_def)
  next
    case False
    define n where "n = \<lceil>1 / a\<rceil>"
    have inv: "1 < 1 / a" using False a by simp
    have n: "1 / a \<le> of_int n" "of_int n - 1 < 1 / a"
      unfolding n_def by linarith+
    have n2: "2 \<le> n" using inv n(1)
      by (smt (verit, best) n_def ceiling_le_iff of_int_1 one_add_one less_ceiling_iff)
    define m where "m = n - 1"
    have m: "0 < m" using n2 by (simp add: m_def)
    have b: "binade x = - bitlen m"
      using False by (simp add: binade_def a_def n_def m_def)
    from bitlen_bounds [OF m] have lo: "2 ^ nat (bitlen m - 1) \<le> m" and hi: "m < 2 ^ nat (bitlen m)"
      by auto
    have ge1: "1 \<le> bitlen m" using m by (auto simp: bitlen_alt_def)
    have "n \<le> 2 ^ nat (bitlen m)" using hi by (simp add: m_def)
    then have "(of_int n :: rat) \<le> of_int (2 ^ nat (bitlen m))" by (simp only: of_int_le_iff)
    also have "\<dots> = 2 powi (bitlen m)" using ge1 by (simp add: power_int_nonneg_exp)
    finally have "1 / a \<le> 2 powi (bitlen m)" using n(1) by linarith
    then have "1 \<le> a * 2 powi bitlen m"
      using a by (simp add: field_simps)
    then have l: "2 powi (- bitlen m) \<le> a"
      by (simp add: power_int_minus field_simps)
    have "(of_int (2 ^ nat (bitlen m - 1)) :: rat) \<le> of_int m" using lo by (simp only: of_int_le_iff)
    then have "(2::rat) powi (bitlen m - 1) \<le> of_int n - 1"
      using ge1 by (simp add: power_int_nonneg_exp m_def)
    then have "(2::rat) powi (bitlen m - 1) < 1 / a" using n(2) by linarith
    then have "a * 2 powi (bitlen m - 1) < 1" using a by (simp add: field_simps)
    moreover have "(0::rat) < 2 powi (- bitlen m + 1)" by simp
    moreover have "(2::rat) powi (bitlen m - 1) * 2 powi (- bitlen m + 1) = 1"
      by (simp flip: power_int_add)
    ultimately have "a < 2 powi (- bitlen m + 1)"
      by (rule less_reciprocal)
    with l b show "2 powi binade x \<le> \<bar>x\<bar> \<and> \<bar>x\<bar> < 2 powi (binade x + 1)"
      by (simp add: a_def)
  qed
qed

lemma binade_unique:
  assumes "2 powi e \<le> \<bar>x\<bar>" and "\<bar>x\<bar> < 2 powi (e + 1)"
  shows "binade x = e"
proof -
  have "(0::rat) < 2 powi e" by simp
  with assms(1) have "0 < \<bar>x\<bar>" by linarith
  then have x: "x \<noteq> 0" by simp
  note b = binade_bounds [OF x]
  have up: "(2::rat) powi binade x < 2 powi (e + 1)" using b(1) assms(2) by linarith
  have 1: "binade x < e + 1"
  proof (rule ccontr)
    assume "\<not> binade x < e + 1"
    then have "e + 1 \<le> binade x" by simp
    then have "(2::rat) powi (e + 1) \<le> 2 powi binade x"
      by (rule power_int_increasing) simp
    with up show False by linarith
  qed
  have lo: "(2::rat) powi e < 2 powi (binade x + 1)" using b(2) assms(1) by linarith
  have 2: "e < binade x + 1"
  proof (rule ccontr)
    assume "\<not> e < binade x + 1"
    then have "binade x + 1 \<le> e" by simp
    then have "(2::rat) powi (binade x + 1) \<le> 2 powi e"
      by (rule power_int_increasing) simp
    with lo show False by linarith
  qed
  from 1 2 show ?thesis by linarith
qed

lemma fl_error:
  "\<bar>fl x - x\<bar> \<le> \<bar>x\<bar> / 2 ^ 53"
proof (cases "x = 0")
  case True
  then show ?thesis by (simp add: fl_def)
next
  case False
  define u :: rat where "u = 2 powi (binade x - 52)"
  have u: "0 < u" by (simp add: u_def)
  have "\<bar>of_int (round_half_even (x / u)) - x / u\<bar> \<le> 1 / 2"
    by (rule round_half_even_close)
  then have "\<bar>of_int (round_half_even (x / u)) - x / u\<bar> * u \<le> 1 / 2 * u"
    using u by (simp only: mult_le_cancel_right_pos)
  moreover have "\<bar>of_int (round_half_even (x / u)) - x / u\<bar> * u
                   = \<bar>of_int (round_half_even (x / u)) * u - x\<bar>"
  proof -
    have "(of_int (round_half_even (x / u)) - x / u) * u
            = of_int (round_half_even (x / u)) * u - x"
      using u by (simp add: left_diff_distrib)
    then have "\<bar>of_int (round_half_even (x / u)) * u - x\<bar>
                 = \<bar>of_int (round_half_even (x / u)) - x / u\<bar> * \<bar>u\<bar>"
      by (simp only: abs_mult [symmetric])
    then show ?thesis using u by simp
  qed
  moreover have "fl x = of_int (round_half_even (x / u)) * u"
    using False by (simp add: fl_def u_def Let_def)
  ultimately have "\<bar>fl x - x\<bar> \<le> u / 2"
    by linarith
  also have "u / 2 = 2 powi binade x / 2 ^ 53"
    by (simp add: u_def power_int_diff)
  also have "\<dots> \<le> \<bar>x\<bar> / 2 ^ 53"
    using binade_bounds(1) [OF False] by (simp add: divide_right_mono)
  finally show ?thesis .
qed

lemma fl_error_bound:
  assumes "\<bar>x\<bar> \<le> B"
  shows "\<bar>fl x - x\<bar> \<le> B * unit_roundoff"
proof -
  have "\<bar>x\<bar> / 2 ^ 53 \<le> B / 2 ^ 53" using assms by (simp add: divide_right_mono)
  with fl_error [of x] show ?thesis by (simp add: unit_roundoff_def)
qed

lemma unit_roundoff_small: "0 < unit_roundoff" "unit_roundoff \<le> 1 / 1000000000000000"
  by (simp_all add: unit_roundoff_def)

lemma fl_eqI:
  assumes "2 powi e \<le> \<bar>x\<bar>" and "\<bar>x\<bar> < 2 powi (e + 1)"
      and "\<bar>of_int m - x / 2 powi (e - 52)\<bar> < 1 / 2"
  shows "fl x = of_int m * 2 powi (e - 52)"
proof -
  have "(0::rat) < 2 powi e" by simp
  with assms(1) have "0 < \<bar>x\<bar>" by linarith
  then have x: "x \<noteq> 0" by simp
  have "binade x = e" using assms(1,2) by (rule binade_unique)
  moreover have "round_half_even (x / 2 powi (e - 52)) = m"
    using assms(3) by (rule round_half_even_unique)
  ultimately show ?thesis using x by (simp add: fl_def Let_def)
qed

lemma fl_zero [simp]: "fl 0 = 0"
  by (simp add: fl_def)

text \<open>The error of the two computations of the source, for \<open>p\<close> present records of
  \<open>t\<close>.\<close>

lemma quotient_unit:
  assumes "p \<le> t" and "0 < t"
  shows "0 \<le> (of_nat p / of_nat t :: rat)" and "(of_nat p / of_nat t :: rat) \<le> 1"
  using assms by simp_all

lemma percent_error:
  fixes p t :: nat
  assumes "p \<le> t" and "0 < t"
  defines "q \<equiv> (of_nat p / of_nat t :: rat)"
  shows "\<bar>js_times (js_divide (of_nat p) (of_nat t)) 100 - q * 100\<bar> \<le> 201 * unit_roundoff"
proof -
  define y1 where "y1 = fl q"
  define y2 where "y2 = fl (y1 * 100)"
  note u = unit_roundoff_small
  have q: "0 \<le> q" "q \<le> 1" using quotient_unit [OF assms(1,2)] by (simp_all add: q_def)
  then have "\<bar>q\<bar> \<le> 1" by simp
  then have e1: "\<bar>y1 - q\<bar> \<le> 1 * unit_roundoff" unfolding y1_def by (rule fl_error_bound)
  have "\<bar>y1 * 100\<bar> \<le> 101" using e1 q u by linarith
  then have e2: "\<bar>y2 - y1 * 100\<bar> \<le> 101 * unit_roundoff" unfolding y2_def by (rule fl_error_bound)
  have "\<bar>y2 - q * 100\<bar> \<le> 201 * unit_roundoff" using e1 e2 by linarith
  then show ?thesis by (simp add: js_times_def js_divide_def y2_def y1_def q_def)
qed

lemma hundredfold_error:
  fixes p t :: nat
  assumes "p \<le> t" and "0 < t"
  defines "q \<equiv> (of_nat p / of_nat t :: rat)"
  shows "\<bar>js_times (js_times (js_divide (of_nat p) (of_nat t)) 100) 100 - q * 10000\<bar>
           \<le> 30201 * unit_roundoff"
proof -
  define y2 where "y2 = js_times (js_divide (of_nat p) (of_nat t)) 100"
  note u = unit_roundoff_small
  have q: "0 \<le> q" "q \<le> 1" using quotient_unit [OF assms(1,2)] by (simp_all add: q_def)
  have e2: "\<bar>y2 - q * 100\<bar> \<le> 201 * unit_roundoff"
    unfolding y2_def q_def by (rule percent_error [OF assms(1,2)])
  have "\<bar>y2 * 100\<bar> \<le> 10101" using e2 q u by linarith
  then have e3: "\<bar>fl (y2 * 100) - y2 * 100\<bar> \<le> 10101 * unit_roundoff" by (rule fl_error_bound)
  have "\<bar>fl (y2 * 100) - q * 10000\<bar> \<le> 30201 * unit_roundoff" using e2 e3 by linarith
  then show ?thesis by (simp add: js_times_def y2_def)
qed

lemma Math_round_close: "\<bar>of_int (Math_round y) - y\<bar> \<le> 1 / 2"
  unfolding Math_round_def by linarith

lemma two_decimals_bound:
  fixes p t :: nat
  assumes "p \<le> t" and "0 < t"
  shows "\<exists>k::int.
           js_divide (of_int (Math_round
              (js_times (js_times (js_divide (of_nat p) (of_nat t)) 100) 100))) 100
             = fl (of_int k / 100)
           \<and> \<bar>of_int k / 100 - of_nat p / of_nat t * 100\<bar> \<le> (1::rat) / 200 + 1 / 1000000000"
proof -
  define y3 where "y3 = js_times (js_times (js_divide (of_nat p) (of_nat t)) 100) 100"
  define q where "q = (of_nat p / of_nat t :: rat)"
  note u = unit_roundoff_small
  have e3: "\<bar>y3 - q * 10000\<bar> \<le> 30201 * unit_roundoff"
    unfolding y3_def q_def by (rule hundredfold_error [OF assms])
  have r: "\<bar>of_int (Math_round y3) - y3\<bar> \<le> 1 / 2" by (rule Math_round_close)
  have "\<bar>of_int (Math_round y3) / 100 - q * 100\<bar> \<le> (1::rat) / 200 + 1 / 1000000000"
    using e3 r u by linarith
  then show ?thesis
    unfolding y3_def q_def js_divide_def [of "of_int _"] by blast
qed

lemma two_decimals_exact:
  fixes p t :: nat
  assumes "p \<le> t" and "0 < t"
      and margin: "\<forall>m::int. (1::rat) / 1000000000 < \<bar>of_nat p / of_nat t * 10000 - (of_int m + 1 / 2)\<bar>"
  shows "Math_round (js_times (js_times (js_divide (of_nat p) (of_nat t)) 100) 100)
           = \<lfloor>(of_nat p / of_nat t * 10000 :: rat) + 1 / 2\<rfloor>"
proof -
  define y3 where "y3 = js_times (js_times (js_divide (of_nat p) (of_nat t)) 100) 100"
  define x where "x = (of_nat p / of_nat t * 10000 :: rat)"
  define m0 where "m0 = \<lfloor>x + 1 / 2\<rfloor>"
  note u = unit_roundoff_small
  have e3: "\<bar>y3 - x\<bar> \<le> 30201 * unit_roundoff"
    unfolding y3_def x_def using hundredfold_error [OF assms(1,2)] by simp
  have fl0: "of_int m0 \<le> x + 1 / 2" "x + 1 / 2 < of_int m0 + 1"
    unfolding m0_def by linarith+
  have m1: "(1::rat) / 1000000000 < \<bar>x - (of_int m0 + 1 / 2)\<bar>"
    using margin unfolding x_def by blast
  have "(1::rat) / 1000000000 < \<bar>x - (of_int (m0 - 1) + 1 / 2)\<bar>"
    using margin unfolding x_def by blast
  then have m2: "(1::rat) / 1000000000 < \<bar>x - (of_int m0 - 1 + 1 / 2)\<bar>"
    by simp
  have "of_int m0 \<le> y3 + 1 / 2" "y3 + 1 / 2 < of_int m0 + 1"
    using e3 fl0 m1 m2 u by linarith+
  then have "\<lfloor>y3 + 1 / 2\<rfloor> = m0" by (rule floor_unique)
  then show ?thesis by (simp add: Math_round_def y3_def m0_def x_def)
qed

lemma toFixed1_bound:
  fixes p t :: nat
  assumes "p \<le> t" and "0 < t"
  shows "\<exists>n. toFixed1 (js_times (js_divide (of_nat p) (of_nat t)) 100)
               = decimal (n div 10) @ ''.'' @ decimal (n mod 10)
             \<and> \<bar>of_nat n / 10 - of_nat p / of_nat t * 100\<bar> \<le> (1::rat) / 20 + 1 / 1000000000"
proof -
  define z where "z = js_times (js_divide (of_nat p) (of_nat t)) 100"
  define q where "q = (of_nat p / of_nat t :: rat)"
  let ?n = "nat \<lfloor>z * 10 + 1 / 2\<rfloor>"
  note u = unit_roundoff_small
  have q: "0 \<le> q" "q \<le> 1" using quotient_unit [OF assms] by (simp_all add: q_def)
  have e: "\<bar>z - q * 100\<bar> \<le> 201 * unit_roundoff"
    unfolding z_def q_def by (rule percent_error [OF assms])
  have "0 \<le> z * 10 + 1 / 2" using e q u by linarith
  then have nn: "0 \<le> \<lfloor>z * 10 + 1 / 2\<rfloor>" by simp
  have "\<bar>of_int \<lfloor>z * 10 + 1 / 2\<rfloor> - z * 10\<bar> \<le> 1 / 2" by linarith
  moreover have "(of_nat ?n :: rat) = of_int \<lfloor>z * 10 + 1 / 2\<rfloor>" using nn by simp
  ultimately have "\<bar>of_nat ?n - z * 10\<bar> \<le> 1 / 2" by simp
  then have "\<bar>of_nat ?n / 10 - q * 100\<bar> \<le> (1::rat) / 20 + 1 / 1000000000"
    using e u by linarith
  then show ?thesis
    unfolding toFixed1_def Let_def z_def q_def by blast
qed

section \<open>Attendance percentages\<close>

lemma countDocuments_le: "countDocuments recs s \<le> length recs"
  by (simp add: countDocuments_def)

lemma stats_result_counts:
  "total_records (stats_result recs) = length recs"
  "present (stats_result recs) = countDocuments recs Present"
  by (simp_all add: stats_result_def Let_def countDocuments_def)

lemma stats_result_percentage:
  "attendancePercentage (stats_result recs) =
     (if recs = [] then 0
      else js_divide (of_int (Math_round
             (js_times (js_times
                (js_divide (of_nat (countDocuments recs Present)) (of_nat (length recs))) 100) 100)))
             100)"
  by (simp add: stats_result_def Let_def)

lemma getAttendanceStats_answer:
  assumes "getAttendanceStats mg db req = Inr res"
  shows "\<exists>recs. res = stats_result recs"
  using assms
  by (auto simp: getAttendanceStats_def Let_def split: if_splits option.splits)

lemma getStudentProfile_answer:
  assumes "getStudentProfile mg db sid = Inr prof"
  shows "attendedSessions prof \<le> totalSessions prof
       \<and> profilePercentage prof =
           (if totalSessions prof > 0
            then JsonString (toFixed1
                   (js_times (js_divide (of_nat (attendedSessions prof))
                                (of_nat (totalSessions prof))) 100))
            else JsonNumber 0)"
proof -
  define recs where "recs = filter (\<lambda>r. att_student r = sid) (attendances db)"
  have "prof = \<lparr>totalSessions = length recs, attendedSessions = countDocuments recs Present,
                 profilePercentage =
                   (if length recs > 0
                    then JsonString (toFixed1
                           (js_times (js_divide (of_nat (countDocuments recs Present))
                                        (of_nat (length recs))) 100))
                    else JsonNumber 0)\<rparr>"
    using assms unfolding getStudentProfile_def Let_def recs_def [symmetric]
    by (simp split: option.splits if_splits)
  then show ?thesis by (simp add: countDocuments_le)
qed

text \<open>
  The student report endpoint computes its statistics from an aggregation whose
  \<^verbatim>\<open>$match\<close> compares the stored ObjectId with the parameter string: it matches no
  record, and the endpoint answers a total of 0 and a percentage of 0 whatever the
  student's records are.
\<close>

lemma string_matches_nothing:
  "match_student q = Some (StringValue s) \<Longrightarrow> aggregate_match q coll = []"
  by (simp add: aggregate_match_def matches_def)

lemma getStudentAttendanceReport_zero:
  assumes "getStudentAttendanceReport db req = Inr res"
  shows "total_records res = 0 \<and> present res = 0 \<and> attendancePercentage res = 0"
proof -
  have empty: "group_by_status [] = []"
    by (simp add: group_by_status_def countDocuments_def)
  have zero: "js_divide (of_int (Math_round (js_times 0 100))) 100 = 0"
    by (simp add: js_divide_def js_times_def Math_round_def fl_def floor_eq_iff)
  show ?thesis
    using assms
    by (auto simp: getStudentAttendanceReport_def Let_def string_matches_nothing empty zero
          count_or_zero_def split: option.splits)
qed

text \<open>
  C8, as amended. Where the attendance statistics endpoint answers: with a total of 0 the
  percentage is 0; with a positive total it is the double nearest to \<open>k / 100\<close> for a
  whole number \<open>k\<close> of hundredths within half a hundredth, and a rounding error below
  \<open>10\<^sup>-\<^sup>9\<close>, of present / total * 100, and \<open>k\<close> is present / total * 100 rounded to
  two decimals (a half upwards) whenever present / total * 10000 is farther than
  \<open>10\<^sup>-\<^sup>9\<close> from every half-integer. Where the student profile endpoint answers: with
  no record the percentage is the number 0; with records it is a string, the decimal
  numeral with one fractional digit within half a tenth, and a rounding error below
  \<open>10\<^sup>-\<^sup>9\<close>, of present / total * 100. The student report endpoint is not covered.
\<close>

theorem percentage_by_endpoint:
  "(getAttendanceStats mg db req = Inr res \<longrightarrow>
      present res \<le> total_records res
    \<and> (total_records res = 0 \<longrightarrow> attendancePercentage res = 0)
    \<and> (0 < total_records res \<longrightarrow>
         (\<exists>k::int. attendancePercentage res = fl (of_int k / 100)
             \<and> \<bar>of_int k / 100 - of_nat (present res) / of_nat (total_records res) * 100\<bar>
                  \<le> (1::rat) / 200 + 1 / 1000000000)
       \<and> ((\<forall>m::int. (1::rat) / 1000000000
               < \<bar>of_nat (present res) / of_nat (total_records res) * 10000 - (of_int m + 1 / 2)\<bar>)
            \<longrightarrow> attendancePercentage res
                  = fl (of_int \<lfloor>(of_nat (present res) / of_nat (total_records res) * 10000 :: rat) + 1 / 2\<rfloor>
                        / 100))))
   \<and> (getStudentProfile mg db sid = Inr prof \<longrightarrow>
      attendedSessions prof \<le> totalSessions prof
    \<and> (totalSessions prof = 0 \<longrightarrow> profilePercentage prof = JsonNumber 0)
    \<and> (0 < totalSessions prof \<longrightarrow>
         (\<exists>n. profilePercentage prof = JsonString (decimal (n div 10) @ ''.'' @ decimal (n mod 10))
             \<and> \<bar>of_nat n / 10 - of_nat (attendedSessions prof) / of_nat (totalSessions prof) * 100\<bar>
                  \<le> (1::rat) / 20 + 1 / 1000000000)))"
proof (intro conjI impI)
  assume "getAttendanceStats mg db req = Inr res"
  then obtain recs where res: "res = stats_result recs"
    using getAttendanceStats_answer by blast
  show le: "present res \<le> total_records res"
    by (simp add: res stats_result_counts countDocuments_le)
  show "attendancePercentage res = 0" if "total_records res = 0"
    using that by (simp add: res stats_result_counts stats_result_percentage)
  show "\<exists>k::int. attendancePercentage res = fl (of_int k / 100)
             \<and> \<bar>of_int k / 100 - of_nat (present res) / of_nat (total_records res) * 100\<bar>
                  \<le> (1::rat) / 200 + 1 / 1000000000" if "0 < total_records res"
    using two_decimals_bound [OF le that] that
    by (simp add: res stats_result_counts stats_result_percentage)
  show "attendancePercentage res
          = fl (of_int \<lfloor>(of_nat (present res) / of_nat (total_records res) * 10000 :: rat) + 1 / 2\<rfloor> / 100)"
    if "0 < total_records res"
      and "\<forall>m::int. (1::rat) / 1000000000
               < \<bar>of_nat (present res) / of_nat (total_records res) * 10000 - (of_int m + 1 / 2)\<bar>"
    using two_decimals_exact [OF le that] that(1)
    by (simp add: res stats_result_counts stats_result_percentage js_divide_def [of "of_int _"])
next
  assume p: "getStudentProfile mg db sid = Inr prof"
  note a = getStudentProfile_answer [OF p]
  show le: "attendedSessions prof \<le> totalSessions prof" using a by simp
  show "profilePercentage prof = JsonNumber 0" if "totalSessions prof = 0"
    using a that by simp
  show "\<exists>n. profilePercentage prof = JsonString (decimal (n div 10) @ ''.'' @ decimal (n mod 10))
             \<and> \<bar>of_nat n / 10 - of_nat (attendedSessions prof) / of_nat (totalSessions prof) * 100\<bar>
                  \<le> (1::rat) / 20 + 1 / 1000000000" if "0 < totalSessions prof"
    using toFixed1_bound [OF le that] a that by simp
qed

lemma matches_everything:
  "matches \<lparr>match_group = AnyGroup, match_student = None, match_gte = None, match_lte = None\<rparr> r"
  by (simp add: matches_def)

lemma admin_reads_all_answer:
  "getAttendanceStats mg (example_store\<lparr>attendances := recs\<rparr>) admin_reads_all
     = Inr (stats_result recs)"
  by (simp add: getAttendanceStats_def admin_reads_all_def aggregate_match_def
        matches_everything Let_def)

lemma count_below:
  "length (filter (\<lambda>i. i < k) [0..<n]) = min k n"
  by (induction n) auto

lemma count_not_below:
  "length (filter (\<lambda>i. \<not> i < k) [0..<n]) = n - k"
  by (induction n) auto

lemma present_23_of_160_counts:
  "present_23_of_160 \<noteq> []"
  "length present_23_of_160 = 160"
  "countDocuments present_23_of_160 Present = 23"
  "countDocuments present_23_of_160 Absent = 137"
  "countDocuments present_23_of_160 Late = 0"
  "countDocuments present_23_of_160 Excused = 0"
  by (simp_all add: present_23_of_160_def countDocuments_def manual_record_def filter_map comp_def
        count_below count_not_below)

lemma one_present_of_three_counts:
  "one_present_of_three \<noteq> []"
  "length one_present_of_three = 3"
  "countDocuments one_present_of_three Present = 1"
  "filter (\<lambda>r. att_student r = student1_id) one_present_of_three = one_present_of_three"
  by (simp_all add: one_present_of_three_def countDocuments_def manual_record_def)

lemma student1_found:
  "findById (students example_store) student1_id = Some (hydrate (hd (students example_store)))"
  by (simp add: findById_def example_store_def)

theorem percentage_by_endpoint_witness:
  "(\<exists>res. getAttendanceStats mongoose7 store_one_of_three admin_reads_all = Inr res
          \<and> total_records res = 3 \<and> present res = 1
          \<and> attendancePercentage res = fl (3333 / 100))
   \<and> (\<exists>res. getAttendanceStats mongoose7 example_store admin_reads_all = Inr res
          \<and> total_records res = 0 \<and> attendancePercentage res = 0)
   \<and> (\<exists>prof n. getStudentProfile mongoose5 store_one_of_three student1_id = Inr prof
          \<and> totalSessions prof = 3
          \<and> profilePercentage prof = JsonString (decimal (n div 10) @ ''.'' @ decimal (n mod 10)))
   \<and> (\<exists>prof. getStudentProfile mongoose6 example_store student1_id = Inr prof
          \<and> totalSessions prof = 0 \<and> profilePercentage prof = JsonNumber 0)"
proof (intro conjI)
  let ?res = "stats_result one_present_of_three"
  have answer: "getAttendanceStats mongoose7 store_one_of_three admin_reads_all = Inr ?res"
    unfolding store_one_of_three_def by (rule admin_reads_all_answer)
  have counts: "total_records ?res = 3" "present ?res = 1"
    by (simp_all add: stats_result_counts one_present_of_three_counts)
  have margin: "\<forall>m::int. (1::rat) / 1000000000
                  < \<bar>of_nat (present ?res) / of_nat (total_records ?res) * 10000 - (of_int m + 1 / 2)\<bar>"
  proof
    fix m :: int
    have "m \<le> 3332 \<or> 3333 \<le> m" by linarith
    then have "(of_int m :: rat) \<le> 3332 \<or> (3333::rat) \<le> of_int m" by simp
    then have "(1::rat) / 1000000000 < \<bar>1 / 3 * 10000 - (of_int m + 1 / 2)\<bar>" by linarith
    then show "(1::rat) / 1000000000
                  < \<bar>of_nat (present ?res) / of_nat (total_records ?res) * 10000 - (of_int m + 1 / 2)\<bar>"
      by (simp add: counts)
  qed
  have "attendancePercentage ?res
          = fl (of_int \<lfloor>(of_nat (present ?res) / of_nat (total_records ?res) * 10000 :: rat) + 1 / 2\<rfloor>
                / 100)"
    using percentage_by_endpoint [THEN conjunct1, of mongoose7 store_one_of_three
        admin_reads_all ?res] answer counts margin
    by simp
  moreover have "\<lfloor>(1 / 3 * 10000 :: rat) + 1 / 2\<rfloor> = 3333"
    by (simp add: floor_eq_iff)
  ultimately have "attendancePercentage ?res = fl (3333 / 100)"
    by (simp add: counts)
  with answer counts
  show "\<exists>res. getAttendanceStats mongoose7 store_one_of_three admin_reads_all = Inr res
          \<and> total_records res = 3 \<and> present res = 1
          \<and> attendancePercentage res = fl (3333 / 100)"
    by blast
next
  let ?res = "stats_result []"
  have "getAttendanceStats mongoose7 (example_store\<lparr>attendances := []\<rparr>) admin_reads_all = Inr ?res"
    by (rule admin_reads_all_answer)
  moreover have "example_store\<lparr>attendances := []\<rparr> = example_store"
    by (simp add: example_store_def)
  ultimately have answer: "getAttendanceStats mongoose7 example_store admin_reads_all = Inr ?res"
    by simp
  have count: "total_records ?res = 0"
    by (simp add: stats_result_counts)
  have "attendancePercentage ?res = 0"
    using percentage_by_endpoint [THEN conjunct1, of mongoose7 example_store
        admin_reads_all ?res] answer count
    by simp
  with answer count
  show "\<exists>res. getAttendanceStats mongoose7 example_store admin_reads_all = Inr res
          \<and> total_records res = 0 \<and> attendancePercentage res = 0"
    by blast
next
  obtain prof where answer: "getStudentProfile mongoose5 store_one_of_three student1_id = Inr prof"
    and count: "totalSessions prof = 3"
    by (simp add: getStudentProfile_def store_one_of_three_def student1_found mongoose5_def
          one_present_of_three_counts Let_def)
  have "\<exists>n. profilePercentage prof = JsonString (decimal (n div 10) @ ''.'' @ decimal (n mod 10))
             \<and> \<bar>of_nat n / 10 - of_nat (attendedSessions prof) / of_nat (totalSessions prof) * 100\<bar>
                  \<le> (1::rat) / 20 + 1 / 1000000000"
    using percentage_by_endpoint [THEN conjunct2, of mongoose5 store_one_of_three
        student1_id prof] answer count
    by simp
  with answer count
  show "\<exists>prof n. getStudentProfile mongoose5 store_one_of_three student1_id = Inr prof
          \<and> totalSessions prof = 3
          \<and> profilePercentage prof = JsonString (decimal (n div 10) @ ''.'' @ decimal (n mod 10))"
    by blast
next
  obtain prof where answer: "getStudentProfile mongoose6 example_store student1_id = Inr prof"
    and count: "totalSessions prof = 0"
    by (simp add: getStudentProfile_def student1_found Let_def) (simp add: example_store_def)
  have "profilePercentage prof = JsonNumber 0"
    using percentage_by_endpoint [THEN conjunct2, of mongoose6 example_store
        student1_id prof] answer count
    by simp
  with answer count
  show "\<exists>prof. getStudentProfile mongoose6 example_store student1_id = Inr prof
          \<and> totalSessions prof = 0 \<and> profilePercentage prof = JsonNumber 0"
    by blast
qed

theorem percentage_tie_counterexample:
  "getAttendanceStats mongoose7 store_23_of_160 admin_reads_all
     = Inr \<lparr>total_records = 160, present = 23, absent = 137, late = 0, excused = 0,
            attendancePercentage = fl (1437 / 100)\<rparr>
   \<and> fl (1437 / 100) \<noteq> fl (1438 / 100)
   \<and> \<lfloor>(23 / 160 * 100 * 100 :: rat) + 1 / 2\<rfloor> = 1438
   \<and> getStudentProfile mongoose5 store_one_of_three student1_id
     = Inr \<lparr>totalSessions = 3, attendedSessions = 1, profilePercentage = JsonString ''33.3''\<rparr>"
proof (intro conjI)
  have pct: "js_divide (of_int (Math_round (js_times (js_times (js_divide 23 160) 100) 100))) 100
               = fl (1437 / 100)"
    by code_simp
  show "getAttendanceStats mongoose7 store_23_of_160 admin_reads_all
     = Inr \<lparr>total_records = 160, present = 23, absent = 137, late = 0, excused = 0,
            attendancePercentage = fl (1437 / 100)\<rparr>"
    unfolding store_23_of_160_def admin_reads_all_answer
    by (simp add: stats_result_def present_23_of_160_counts pct)
  show "fl (1437 / 100) \<noteq> fl (1438 / 100)"
    by code_simp
  show "\<lfloor>(23 / 160 * 100 * 100 :: rat) + 1 / 2\<rfloor> = 1438"
    by (simp add: floor_eq_iff)
  have fixed: "toFixed1 (js_times (js_divide 1 3) 100) = ''33.3''"
    by code_simp
  show "getStudentProfile mongoose5 store_one_of_three student1_id
     = Inr \<lparr>totalSessions = 3, attendedSessions = 1, profilePercentage = JsonString ''33.3''\<rparr>"
    by (simp add: getStudentProfile_def store_one_of_three_def student1_found mongoose5_def
          one_present_of_three_counts Let_def fixed)
qed


end
